theory Spec2Isabelle
  imports Complex_Main
begin

section \<open>Python values\<close>

text \<open>
  The services pass around what \<^verbatim>\<open>json.loads\<close> produces: dictionaries, lists,
  strings, numbers, booleans and \<^verbatim>\<open>None\<close>. A dictionary is an association list in
  insertion order. A float of a JSON text is held by the decimal value it is written
  with (NaN and the infinities are outside the model); the floats the code computes are
  binary64 values, see the section on floats. A \<open>char\<close> stands for a code point below
  256.
\<close>

datatype json =
    JNull
  | JBool bool
  | JInt int
  | JFloat real
  | JStr string
  | JList "json list"
  | JObj "(string \<times> json) list"

type_synonym dict = "(string \<times> json) list"

text \<open>An exception is its class and \<^verbatim>\<open>str(e)\<close>. \<open>LibraryError\<close> is any
  exception of a library that is a subclass of \<^verbatim>\<open>Exception\<close> and not one of the
  others (a transport failure, an undecodable image).\<close>

datatype py_exception =
    Exception string
  | JSONDecodeError string
  | AttributeError string
  | TypeError string
  | KeyError string
  | ValidationError string
  | ZeroDivisionError string
  | OverflowError string
  | LibraryError string

fun str_exc :: "py_exception \<Rightarrow> string" where
  "str_exc (Exception m) = m"
| "str_exc (JSONDecodeError m) = m"
| "str_exc (AttributeError m) = m"
| "str_exc (TypeError m) = m"
| "str_exc (KeyError m) = m"
| "str_exc (ValidationError m) = m"
| "str_exc (ZeroDivisionError m) = m"
| "str_exc (OverflowError m) = m"
| "str_exc (LibraryError m) = m"

fun is_JSONDecodeError :: "py_exception \<Rightarrow> bool" where
  "is_JSONDecodeError (JSONDecodeError m) = True"
| "is_JSONDecodeError e = False"

text \<open>Sequencing of steps that may raise: the first exception ends the block.\<close>

definition and_then :: "py_exception + 'a \<Rightarrow> ('a \<Rightarrow> py_exception + 'b) \<Rightarrow> py_exception + 'b" where
  "and_then r f = (case r of Inl e \<Rightarrow> Inl e | Inr x \<Rightarrow> f x)"

text \<open>Truth value of an object, as \<^verbatim>\<open>if x\<close>, \<^verbatim>\<open>not x\<close> and \<^verbatim>\<open>x and y\<close> test it.\<close>

fun truthy :: "json \<Rightarrow> bool" where
  "truthy JNull = False"
| "truthy (JBool b) = b"
| "truthy (JInt n) = (n \<noteq> 0)"
| "truthy (JFloat x) = (x \<noteq> 0)"
| "truthy (JStr s) = (s \<noteq> [])"
| "truthy (JList xs) = (xs \<noteq> [])"
| "truthy (JObj kvs) = (kvs \<noteq> [])"

fun is_not_None :: "json \<Rightarrow> bool" where
  "is_not_None JNull = False"
| "is_not_None v = True"

fun type_name :: "json \<Rightarrow> string" where
  "type_name JNull = ''NoneType''"
| "type_name (JBool b) = ''bool''"
| "type_name (JInt n) = ''int''"
| "type_name (JFloat x) = ''float''"
| "type_name (JStr s) = ''str''"
| "type_name (JList xs) = ''list''"
| "type_name (JObj kvs) = ''dict''"

definition quoted :: "string \<Rightarrow> string" where
  "quoted s = [CHR 0x27] @ s @ [CHR 0x27]"

definition no_attribute :: "json \<Rightarrow> string \<Rightarrow> py_exception" where
  "no_attribute v a = AttributeError (quoted (type_name v) @ '' object has no attribute '' @ quoted a)"

text \<open>\<^verbatim>\<open>k in d\<close>, \<^verbatim>\<open>d.get(k)\<close>, \<^verbatim>\<open>d.get(k, default)\<close>, \<^verbatim>\<open>d[k]\<close> and
  \<^verbatim>\<open>d[k] = v\<close> on a dictionary.\<close>

definition has_key :: "dict \<Rightarrow> string \<Rightarrow> bool" where
  "has_key d k = (map_of d k \<noteq> None)"

definition dict_get_default :: "dict \<Rightarrow> string \<Rightarrow> json \<Rightarrow> json" where
  "dict_get_default d k dflt = (case map_of d k of None \<Rightarrow> dflt | Some v \<Rightarrow> v)"

definition dict_get :: "dict \<Rightarrow> string \<Rightarrow> json" where
  "dict_get d k = dict_get_default d k JNull"

definition dict_item :: "dict \<Rightarrow> string \<Rightarrow> py_exception + json" where
  "dict_item d k = (case map_of d k of None \<Rightarrow> Inl (KeyError (quoted k)) | Some v \<Rightarrow> Inr v)"

fun dict_set :: "dict \<Rightarrow> string \<Rightarrow> json \<Rightarrow> dict" where
  "dict_set [] k v = [(k, v)]"
| "dict_set ((k', v') # d) k v = (if k' = k then (k, v) # d else (k', v') # dict_set d k v)"

text \<open>\<^verbatim>\<open>x.get(k)\<close> and \<^verbatim>\<open>x.get(k, default)\<close> on any object: only a dictionary has the
  method.\<close>

fun py_get_default :: "json \<Rightarrow> string \<Rightarrow> json \<Rightarrow> py_exception + json" where
  "py_get_default (JObj d) k dflt = Inr (dict_get_default d k dflt)"
| "py_get_default v k dflt = Inl (no_attribute v ''get'')"

definition py_get :: "json \<Rightarrow> string \<Rightarrow> py_exception + json" where
  "py_get x k = py_get_default x k JNull"

text \<open>What a \<^verbatim>\<open>for\<close> loop over an object runs through: the items of a list, the
  characters of a string, the keys of a dictionary; other objects are not iterable.\<close>

fun py_iter :: "json \<Rightarrow> py_exception + json list" where
  "py_iter (JList xs) = Inr xs"
| "py_iter (JStr s) = Inr (map (\<lambda>c. JStr [c]) s)"
| "py_iter (JObj d) = Inr (map (\<lambda>kv. JStr (fst kv)) d)"
| "py_iter v = Inl (TypeError (quoted (type_name v) @ '' object is not iterable''))"

text \<open>\<^verbatim>\<open>len(x)\<close>, which the log line at the end of \<^verbatim>\<open>generate_summary\<close> evaluates on
  the explanations.\<close>

fun py_len :: "json \<Rightarrow> py_exception + nat" where
  "py_len (JStr s) = Inr (length s)"
| "py_len (JList xs) = Inr (length xs)"
| "py_len (JObj d) = Inr (length d)"
| "py_len v = Inl (TypeError (''object of type '' @ quoted (type_name v) @ '' has no len()''))"

section \<open>Strings\<close>

text \<open>\<^verbatim>\<open>str.isspace\<close> on code points below 256, \<^verbatim>\<open>str.strip()\<close>,
  \<^verbatim>\<open>str.find\<close> and \<^verbatim>\<open>str.rfind\<close> of one character (index, or -1), the slice
  \<^verbatim>\<open>s[a:b]\<close>, \<^verbatim>\<open>s.split('\n')\<close> and \<^verbatim>\<open>sep.join\<close>.\<close>

definition isspace :: "char \<Rightarrow> bool" where
  "isspace c = ((of_char c :: nat) \<in> {9, 10, 11, 12, 13, 28, 29, 30, 31, 32, 133, 160})"

definition strip :: "string \<Rightarrow> string" where
  "strip s = rev (dropWhile isspace (rev (dropWhile isspace s)))"

definition str_find :: "string \<Rightarrow> char \<Rightarrow> int" where
  "str_find s c = (if c \<in> set s then int (length (takeWhile (\<lambda>x. x \<noteq> c) s)) else - 1)"

definition str_rfind :: "string \<Rightarrow> char \<Rightarrow> int" where
  "str_rfind s c =
     (if c \<in> set s then int (length s) - 1 - int (length (takeWhile (\<lambda>x. x \<noteq> c) (rev s))) else - 1)"

definition slice_index :: "int \<Rightarrow> int \<Rightarrow> int" where
  "slice_index n i = (if i < 0 then max 0 (i + n) else min i n)"

definition py_slice :: "string \<Rightarrow> int \<Rightarrow> int \<Rightarrow> string" where
  "py_slice s a b =
     (let n = int (length s); lo = slice_index n a; hi = slice_index n b
      in take (nat (hi - lo)) (drop (nat lo) s))"

fun split_newline :: "string \<Rightarrow> string list" where
  "split_newline [] = [[]]"
| "split_newline (c # s) =
     (if c = CHR 0x0A then [] # split_newline s
      else (case split_newline s of [] \<Rightarrow> [[c]] | l # ls \<Rightarrow> (c # l) # ls))"

fun join_newline :: "string list \<Rightarrow> string" where
  "join_newline [] = []"
| "join_newline [s] = s"
| "join_newline (s # t # ss) = s @ [CHR 0x0A] @ join_newline (t # ss)"

fun digit_char :: "nat \<Rightarrow> char" where
  "digit_char n = char_of (48 + n)"

fun str_nat :: "nat \<Rightarrow> string" where
  "str_nat n = (if n < 10 then [digit_char n] else str_nat (n div 10) @ [digit_char (n mod 10)])"

definition str_int :: "int \<Rightarrow> string" where
  "str_int i = (if i < 0 then CHR ''-'' # str_nat (nat (- i)) else str_nat (nat i))"

section \<open>Collaborators\<close>

text \<open>
  The text given to the oracle is one of three templates of the services, each filled
  with the data of the call; a prompt is modelled by its template and that data. Within
  one pipeline run the three calls have different templates, so an oracle that is a
  function of the prompt covers every sequence of answers of a run.
\<close>

datatype prompt =
    NormalizationPrompt string
  | ValidationPrompt string json
  | SummaryPrompt json

text \<open>What \<^verbatim>\<open>requests.post\<close> hands back: the status code and the outcome of
  \<^verbatim>\<open>response.json()\<close>.\<close>

record http_response =
  status_code :: int
  body :: "py_exception + json"

type_synonym bytes = string

text \<open>
  The libraries the code calls, as parameters:
  \<^item> \<open>post\<close>: \<^verbatim>\<open>requests.post\<close> to the oracle (an exception is a transport failure);
  \<^item> \<open>json_loads\<close>: \<^verbatim>\<open>json.loads\<close> on a text that is empty or starts with a brace,
    where a successful parse is always a dictionary;
  \<^item> \<open>Image_open\<close>, \<open>image_to_data\<close> (the \<^verbatim>\<open>conf\<close> column, as integers),
    \<open>image_to_string\<close>, \<open>convert_from_bytes\<close>: the OCR collaborator;
  \<^item> \<open>float_str\<close>: how a float is printed in an f-string;
  \<^item> \<open>str_field_other\<close>: what a pydantic \<^verbatim>\<open>str\<close> field does with a value that is not a
    string;
  \<^item> \<open>FinalResponse_error\<close>: the validation error, if any, of the arguments of
    \<^verbatim>\<open>FinalResponse(...)\<close>.
\<close>

record 'img deps =
  post :: "prompt \<Rightarrow> py_exception + http_response"
  json_loads :: "string \<Rightarrow> py_exception + dict"
  Image_open :: "bytes \<Rightarrow> py_exception + 'img"
  image_to_data :: "'img \<Rightarrow> py_exception + int list"
  image_to_string :: "'img \<Rightarrow> py_exception + string"
  convert_from_bytes :: "bytes \<Rightarrow> py_exception + 'img list"
  float_str :: "real \<Rightarrow> string"
  str_field_other :: "json \<Rightarrow> py_exception + string"
  FinalResponse_error :: "json \<Rightarrow> json \<Rightarrow> json \<Rightarrow> py_exception option"

text \<open>
  The trace of a run: each service method entered, with its arguments, and each request
  posted to the oracle, in order.
\<close>

datatype event =
    Normalize string
  | Validate string json
  | Summarize json
  | Post prompt

type_synonym 'a traced = "event list \<times> (py_exception + 'a)"

definition traced_then :: "'a traced \<Rightarrow> ('a \<Rightarrow> 'b traced) \<Rightarrow> 'b traced" where
  "traced_then m f =
     (case m of
        (t, Inl e) \<Rightarrow> (t, Inl e)
      | (t, Inr x) \<Rightarrow> (case f x of (t', r) \<Rightarrow> (t @ t', r)))"

definition except_Exception :: "'a traced \<Rightarrow> (py_exception \<Rightarrow> py_exception + 'a) \<Rightarrow> 'a traced" where
  "except_Exception m h = (case m of (t, Inl e) \<Rightarrow> (t, h e) | (t, Inr x) \<Rightarrow> (t, Inr x))"

section \<open>LLMService\<close>

text \<open>Lines 64 to 70 of \<^verbatim>\<open>generate_json\<close>: the text between the first opening and the
  last closing brace, both included.\<close>

definition json_str_of :: "string \<Rightarrow> py_exception + string" where
  "json_str_of response_text =
     (let start_idx = str_find response_text CHR ''{'';
          end_idx = str_rfind response_text CHR ''}''
      in if start_idx = - 1 \<or> end_idx = - 1
         then Inl (Exception ''No JSON object found in LLM response'')
         else Inr (py_slice response_text start_idx (end_idx + 1)))"

text \<open>\<^verbatim>\<open>result.get("response", "").strip()\<close> on the decoded body.\<close>

definition response_text_of :: "json \<Rightarrow> py_exception + string" where
  "response_text_of result =
     and_then (py_get_default result ''response'' (JStr []))
       (\<lambda>v. case v of JStr s \<Rightarrow> Inr (strip s) | _ \<Rightarrow> Inl (no_attribute v ''strip''))"

definition generate_json_try :: "'img deps \<Rightarrow> prompt \<Rightarrow> py_exception + dict" where
  "generate_json_try deps prompt =
     and_then (post deps prompt) (\<lambda>response.
       if status_code response \<noteq> 200
       then Inl (Exception (''Ollama API failed with status '' @ str_int (status_code response)))
       else
     and_then (body response) (\<lambda>result.
     and_then (response_text_of result) (\<lambda>response_text.
       if response_text = [] then Inl (Exception ''Empty response from Ollama'')
       else
     and_then (json_str_of response_text) (\<lambda>json_str.
       json_loads deps json_str))))"

text \<open>The two \<^verbatim>\<open>except\<close> clauses of \<^verbatim>\<open>generate_json\<close>: what is raised in place of
  \<open>e\<close>.\<close>

definition generate_json_except :: "py_exception \<Rightarrow> py_exception" where
  "generate_json_except e =
     (if is_JSONDecodeError e then Exception (''Invalid JSON from LLM: '' @ str_exc e)
      else Exception (''LLM generation failed: '' @ str_exc e))"

definition generate_json :: "'img deps \<Rightarrow> prompt \<Rightarrow> dict traced" where
  "generate_json deps prompt =
     ([Post prompt],
      case generate_json_try deps prompt of
        Inr parsed_json \<Rightarrow> Inr parsed_json
      | Inl e \<Rightarrow> Inl (generate_json_except e))"

section \<open>SummarizerService\<close>

definition generate_summary :: "'img deps \<Rightarrow> json \<Rightarrow> dict traced" where
  "generate_summary deps normalized_tests =
     traced_then ([Summarize normalized_tests], Inr ()) (\<lambda>_.
     except_Exception
       (if \<not> truthy normalized_tests
        then ([], Inr [(''summary'', JStr ''No test results to summarize.''),
                       (''explanations'', JList []),
                       (''status'', JStr ''ok'')])
        else
          traced_then (generate_json deps (SummaryPrompt normalized_tests)) (\<lambda>result.
            if \<not> has_key result ''summary'' \<or> \<not> has_key result ''explanations''
            then ([], Inl (Exception ''LLM response missing required fields''))
            else
              let result = (if \<not> has_key result ''status''
                            then dict_set result ''status'' (JStr ''ok'')
                            else result)
              in ([],
                  and_then (dict_item result ''explanations'') (\<lambda>explanations.
                  and_then (py_len explanations) (\<lambda>n.
                    Inr result)))))
       (\<lambda>e. Inl (Exception (''Summarization failed: '' @ str_exc e))))"

section \<open>ValidatorService\<close>

definition validate_extraction_try :: "'img deps \<Rightarrow> string \<Rightarrow> json \<Rightarrow> dict traced" where
  "validate_extraction_try deps original_text extracted_tests =
     (if \<not> truthy extracted_tests
      then ([], Inr [(''status'', JStr ''unprocessed''),
                     (''reason'', JStr ''No tests extracted from input''),
                     (''confidence'', JFloat 0)])
      else
        traced_then (generate_json deps (ValidationPrompt original_text extracted_tests)) (\<lambda>result.
          case map_of result ''status'' of
            None \<Rightarrow> ([], Inl (Exception (''LLM validation response missing '' @ quoted ''status'' @ '' field'')))
          | Some status \<Rightarrow>
              let validation_response =
                    [(''status'', status),
                     (''reason'', dict_get result ''reason''),
                     (''confidence'', dict_get_default result ''confidence'' (JFloat 0))]
              in if status = JStr ''ok''
                 then ([], Inr (dict_set validation_response ''tests'' extracted_tests))
                 else ([], Inr validation_response)))"

definition validate_extraction :: "'img deps \<Rightarrow> string \<Rightarrow> json \<Rightarrow> dict traced" where
  "validate_extraction deps original_text extracted_tests =
     traced_then ([Validate original_text extracted_tests], Inr ()) (\<lambda>_.
     except_Exception (validate_extraction_try deps original_text extracted_tests)
       (\<lambda>e. Inr [(''status'', JStr ''unprocessed''),
                  (''reason'', JStr (''Validation error: '' @ str_exc e)),
                  (''confidence'', JFloat 0)]))"

section \<open>NormalizerService\<close>

text \<open>\<^verbatim>\<open>a and b\<close> on conditions that may raise: \<open>b\<close> is evaluated only when \<open>a\<close> holds.\<close>

definition py_and :: "py_exception + bool \<Rightarrow> py_exception + bool \<Rightarrow> py_exception + bool" where
  "py_and a b = and_then a (\<lambda>x. if x then b else Inr False)"

definition truth_of :: "py_exception + json \<Rightarrow> py_exception + bool" where
  "truth_of r = and_then r (\<lambda>v. Inr (truthy v))"

definition not_None_of :: "py_exception + json \<Rightarrow> py_exception + bool" where
  "not_None_of r = and_then r (\<lambda>v. Inr (is_not_None v))"

text \<open>The condition of the filter loop (lines 194 to 200), in the order it is written.\<close>

definition complete_test :: "json \<Rightarrow> py_exception + bool" where
  "complete_test test =
     py_and (truth_of (py_get test ''name''))
    (py_and (not_None_of (py_get test ''value''))
    (py_and (truth_of (py_get test ''unit''))
    (py_and (truth_of (py_get test ''status''))
    (py_and (truth_of (py_get test ''ref_range''))
    (py_and (not_None_of (and_then (py_get_default test ''ref_range'' (JObj [])) (\<lambda>r. py_get r ''low'')))
            (not_None_of (and_then (py_get_default test ''ref_range'' (JObj [])) (\<lambda>r. py_get r ''high''))))))))"

fun clean_tests :: "json list \<Rightarrow> json list \<Rightarrow> py_exception + json list" where
  "clean_tests [] cleaned_tests = Inr cleaned_tests"
| "clean_tests (test # rest) cleaned_tests =
     (case complete_test test of
        Inl e \<Rightarrow> Inl e
      | Inr True \<Rightarrow> clean_tests rest (cleaned_tests @ [test])
      | Inr False \<Rightarrow> clean_tests rest cleaned_tests)"

definition normalize_tests :: "'img deps \<Rightarrow> string \<Rightarrow> dict traced" where
  "normalize_tests deps raw_text =
     traced_then ([Normalize raw_text], Inr ()) (\<lambda>_.
     except_Exception
       (traced_then (generate_json deps (NormalizationPrompt raw_text)) (\<lambda>result.
          if \<not> has_key result ''tests''
          then ([], Inl (Exception (''LLM response missing '' @ quoted ''tests'' @ '' field'')))
          else
            let result = (if \<not> has_key result ''normalization_confidence''
                          then dict_set result ''normalization_confidence'' (JFloat 0.8)
                          else result)
            in ([],
                and_then (dict_item result ''tests'') (\<lambda>tests.
                  if \<not> truthy tests then Inr (dict_set result ''tests'' (JList []))
                  else
                and_then (py_iter tests) (\<lambda>candidates.
                and_then (clean_tests candidates []) (\<lambda>cleaned_tests.
                  Inr (dict_set result ''tests'' (JList cleaned_tests))))))))
       (\<lambda>e. Inl (Exception (''Normalization failed: '' @ str_exc e))))"

section \<open>OCRService\<close>

record ocr_result =
  raw_text :: string
  lines :: "string list"
  ocr_confidence :: real

text \<open>
  A Python float is an IEEE 754 binary64 number, modelled by its exact value. Every
  operation gives the exact result rounded to the nearest binary64 number, a tie to the
  one with the even significand: \<open>to_double\<close>. The numbers in the binade of \<open>x\<close>, from
  \<open>2 ^ e\<close> up to \<open>2 ^ (e + 1)\<close>, lie \<open>2 ^ (e - 52)\<close> apart, and \<open>2 ^ - 1074\<close> apart below
  \<open>2 ^ - 1022\<close>. \<open>to_double\<close> is the rounding for magnitudes below the overflow
  threshold, which the division checks first.
\<close>

definition round_half_even :: "real \<Rightarrow> int" where
  "round_half_even x =
     (let f = \<lfloor>x\<rfloor>; d = x - of_int f
      in if d < 1 / 2 then f else if 1 / 2 < d then f + 1 else if even f then f else f + 1)"

definition pow2 :: "int \<Rightarrow> real" where
  "pow2 e = (if 0 \<le> e then 2 ^ nat e else 1 / 2 ^ nat (- e))"

definition binade :: "real \<Rightarrow> int" where
  "binade x = \<lfloor>log 2 \<bar>x\<bar>\<rfloor>"

definition to_double :: "real \<Rightarrow> real" where
  "to_double x =
     (if x = 0 then 0
      else let u = max (binade x - 52) (- 1074)
           in of_int (round_half_even (x / pow2 u)) * pow2 u)"

text \<open>\<^verbatim>\<open>a / b\<close> on integers: the quotient, rounded once; an error when it is too large
  for a float.\<close>

definition int_true_divide :: "int \<Rightarrow> int \<Rightarrow> py_exception + real" where
  "int_true_divide a b =
     (if b = 0 then Inl (ZeroDivisionError ''division by zero'')
      else if 2 ^ 1024 - 2 ^ 970 \<le> \<bar>of_int a / of_int b :: real\<bar>
      then Inl (OverflowError ''integer division result too large for a float'')
      else Inr (to_double (of_int a / of_int b)))"

text \<open>\<^verbatim>\<open>x / 100.0\<close> on a float.\<close>

definition divide_by_100 :: "real \<Rightarrow> real" where
  "divide_by_100 x = to_double (x / 100)"

text \<open>\<^verbatim>\<open>round(x, ndigits)\<close> on a float, for the few digits used here: the exact value
  of \<open>x\<close> is rounded to \<open>ndigits\<close> decimals, a tie to the even digit, and the decimal
  number obtained is read back as a float.\<close>

definition py_round :: "real \<Rightarrow> nat \<Rightarrow> real" where
  "py_round x ndigits = to_double (of_int (round_half_even (x * 10 ^ ndigits)) / 10 ^ ndigits)"

definition positive_confidences :: "int list \<Rightarrow> int list" where
  "positive_confidences conf = filter (\<lambda>c. 0 < c) conf"

text \<open>\<^verbatim>\<open>sum(confidences) / len(confidences) / 100.0 if confidences else 0.0\<close>.\<close>

definition average_confidence :: "int list \<Rightarrow> py_exception + real" where
  "average_confidence confidences =
     (if confidences \<noteq> []
      then and_then (int_true_divide (sum_list confidences) (int (length confidences)))
             (\<lambda>mean. Inr (divide_by_100 mean))
      else Inr 0)"

definition text_lines :: "string \<Rightarrow> string list" where
  "text_lines text = filter (\<lambda>line. line \<noteq> []) (map strip (split_newline text))"

definition extract_from_image :: "'img deps \<Rightarrow> bytes \<Rightarrow> py_exception + ocr_result" where
  "extract_from_image deps image_bytes =
     (case and_then (Image_open deps image_bytes) (\<lambda>img.
           and_then (image_to_data deps img) (\<lambda>conf.
           and_then (image_to_string deps img) (\<lambda>text.
             let confidences = positive_confidences conf in
           and_then (average_confidence confidences) (\<lambda>avg_confidence.
             Inr \<lparr>raw_text = strip text, lines = text_lines text,
                  ocr_confidence = py_round avg_confidence 2\<rparr>))))
      of Inr r \<Rightarrow> Inr r
       | Inl e \<Rightarrow> Inl (Exception (''OCR failed: '' @ str_exc e)))"

text \<open>The page loop of \<^verbatim>\<open>extract_from_pdf\<close>, on the three accumulators
  \<^verbatim>\<open>all_text\<close>, \<^verbatim>\<open>all_lines\<close> and \<^verbatim>\<open>all_confidences\<close>.\<close>

fun pdf_pages :: "'img deps \<Rightarrow> 'img list \<Rightarrow> string list \<Rightarrow> string list \<Rightarrow> int list
    \<Rightarrow> py_exception + (string list \<times> string list \<times> int list)" where
  "pdf_pages deps [] all_text all_lines all_confidences = Inr (all_text, all_lines, all_confidences)"
| "pdf_pages deps (img # rest) all_text all_lines all_confidences =
     (case image_to_data deps img of
        Inl e \<Rightarrow> Inl e
      | Inr conf \<Rightarrow>
          (case image_to_string deps img of
             Inl e \<Rightarrow> Inl e
           | Inr page_text \<Rightarrow>
               let confidences = positive_confidences conf
               in pdf_pages deps rest
                    (all_text @ [strip page_text])
                    (all_lines @ text_lines page_text)
                    (if confidences \<noteq> [] then all_confidences @ confidences else all_confidences)))"

definition extract_from_pdf :: "'img deps \<Rightarrow> bytes \<Rightarrow> py_exception + ocr_result" where
  "extract_from_pdf deps pdf_bytes =
     (case and_then (convert_from_bytes deps pdf_bytes) (\<lambda>images.
           and_then (pdf_pages deps images [] [] []) (\<lambda>(all_text, all_lines, all_confidences).
           and_then (average_confidence all_confidences) (\<lambda>avg_confidence.
             Inr \<lparr>raw_text = join_newline all_text, lines = all_lines,
                  ocr_confidence = py_round avg_confidence 2\<rparr>)))
      of Inr r \<Rightarrow> Inr r
       | Inl e \<Rightarrow> Inl (Exception (''PDF OCR failed: '' @ str_exc e)))"

section \<open>The pipeline endpoints\<close>

text \<open>
  An endpoint either returns a body (status 200) or raises \<^verbatim>\<open>HTTPException\<close> with a
  status code. A \<open>FinalResponse\<close> holds the arguments its constructor accepted, an
  \<open>ErrorResponse\<close> its status and reason.
\<close>

datatype response =
    FinalResponse json json json string
  | ErrorResponse string string

datatype outcome =
    Returns response
  | HTTPException int string

text \<open>An upload: its declared content type, which may be missing, and the bytes that
  \<^verbatim>\<open>await file.read()\<close> gives.\<close>

record upload_file =
  content_type :: "string option"
  content :: bytes

definition ErrorResponse_init :: "'img deps \<Rightarrow> string \<Rightarrow> json \<Rightarrow> py_exception + response" where
  "ErrorResponse_init deps status reason =
     (case reason of
        JStr r \<Rightarrow> Inr (ErrorResponse status r)
      | _ \<Rightarrow> and_then (str_field_other deps reason) (\<lambda>r. Inr (ErrorResponse status r)))"

definition FinalResponse_init :: "'img deps \<Rightarrow> json \<Rightarrow> json \<Rightarrow> json \<Rightarrow> string \<Rightarrow> py_exception + response" where
  "FinalResponse_init deps tests summary explanations status =
     (case FinalResponse_error deps tests summary explanations of
        Some e \<Rightarrow> Inl e
      | None \<Rightarrow> Inr (FinalResponse tests summary explanations status))"

text \<open>Steps 2 to 5, the same statements in both endpoints (lines 226 to 259 and 306 to
  339).\<close>

definition run_stages :: "'img deps \<Rightarrow> string \<Rightarrow> response traced" where
  "run_stages deps text =
     traced_then (normalize_tests deps text) (\<lambda>normalized_result.
     traced_then ([], dict_item normalized_result ''tests'') (\<lambda>tests.
     traced_then (validate_extraction deps text tests) (\<lambda>validation_result.
     traced_then ([], dict_item validation_result ''status'') (\<lambda>status.
       if status = JStr ''unprocessed''
       then ([], and_then (dict_item validation_result ''reason'')
                   (\<lambda>reason. ErrorResponse_init deps ''unprocessed'' reason))
       else
     traced_then ([], dict_item normalized_result ''tests'') (\<lambda>default_tests.
       let validated_tests = dict_get_default validation_result ''tests'' default_tests in
     traced_then (generate_summary deps validated_tests) (\<lambda>summary_result.
     traced_then ([], dict_item summary_result ''summary'') (\<lambda>summary.
     traced_then ([], dict_item summary_result ''explanations'') (\<lambda>explanations.
       ([], FinalResponse_init deps validated_tests summary explanations ''ok'')))))))))"

definition processing_error :: "response traced \<Rightarrow> event list \<times> outcome" where
  "processing_error m =
     (case m of
        (t, Inr r) \<Rightarrow> (t, Returns r)
      | (t, Inl e) \<Rightarrow> (t, Returns (ErrorResponse ''unprocessed'' (''Processing error: '' @ str_exc e))))"

definition process_text_report :: "'img deps \<Rightarrow> string \<Rightarrow> event list \<times> outcome" where
  "process_text_report deps text = processing_error (run_stages deps text)"

definition startswith :: "string \<Rightarrow> string \<Rightarrow> bool" where
  "startswith s p = (take (length p) s = p)"

text \<open>The statements after the OCR; the literal \<^verbatim>\<open>0.3\<close> is the float nearest to
  it.\<close>

definition after_ocr :: "'img deps \<Rightarrow> ocr_result \<Rightarrow> response traced" where
  "after_ocr deps ocr =
     (if ocr_confidence ocr < to_double 0.3
      then ([], Inr (ErrorResponse ''unprocessed''
                       (''OCR confidence too low: '' @ float_str deps (ocr_confidence ocr))))
      else run_stages deps (raw_text ocr))"

definition process_image_report :: "'img deps \<Rightarrow> upload_file \<Rightarrow> event list \<times> outcome" where
  "process_image_report deps file =
     processing_error
       (case content_type file of
          None \<Rightarrow> ([], Inl (no_attribute JNull ''startswith''))
        | Some ct \<Rightarrow>
            if startswith ct ''image/''
            then traced_then ([], extract_from_image deps (content file)) (after_ocr deps)
            else if ct = ''application/pdf''
            then traced_then ([], extract_from_pdf deps (content file)) (after_ocr deps)
            else ([], Inr (ErrorResponse ''unprocessed'' (''Unsupported file type: '' @ ct))))"

section \<open>Example runs\<close>

text \<open>
  Concrete collaborators for running the model: an oracle that answers each of the three
  prompts with a fixed completion, \<^verbatim>\<open>json.loads\<close> given by a table of the texts it
  is asked to parse, and an OCR engine whose pages are their confidence column and text.
\<close>

type_synonym page = "int list \<times> string"

definition completion :: "string \<Rightarrow> py_exception + http_response" where
  "completion text =
     Inr \<lparr>status_code = 200,
          body = Inr (JObj [(''model'', JStr ''llama3.2:latest''),
                            (''response'', JStr text),
                            (''done'', JBool True)])\<rparr>"

fun answers :: "string \<Rightarrow> string \<Rightarrow> string \<Rightarrow> prompt \<Rightarrow> py_exception + http_response" where
  "answers n v s (NormalizationPrompt text) = completion n"
| "answers n v s (ValidationPrompt text tests) = completion v"
| "answers n v s (SummaryPrompt tests) = completion s"

definition table_loads :: "(string \<times> (py_exception + dict)) list \<Rightarrow> string \<Rightarrow> py_exception + dict" where
  "table_loads table s =
     (case map_of table s of
        Some r \<Rightarrow> r
      | None \<Rightarrow> Inl (JSONDecodeError ''Expecting value: line 1 column 1 (char 0)''))"

definition example_deps :: "(prompt \<Rightarrow> py_exception + http_response)
    \<Rightarrow> (string \<times> (py_exception + dict)) list \<Rightarrow> page list \<Rightarrow> page deps" where
  "example_deps oracle table pages =
     \<lparr>post = oracle,
      json_loads = table_loads table,
      Image_open = (\<lambda>b. case pages of [p] \<Rightarrow> Inr p | _ \<Rightarrow> Inl (LibraryError ''cannot identify image file'')),
      image_to_data = (\<lambda>p. Inr (fst p)),
      image_to_string = (\<lambda>p. Inr (snd p)),
      convert_from_bytes = (\<lambda>b. if pages = [] then Inl (LibraryError ''Unable to get page count.'') else Inr pages),
      float_str = (\<lambda>x. ''0.0''),
      str_field_other = (\<lambda>v. Inl (ValidationError ''Input should be a valid string'')),
      FinalResponse_error = (\<lambda>tests summary explanations. None)\<rparr>"

definition hemoglobin :: json where
  "hemoglobin =
     JObj [(''name'', JStr ''Hemoglobin''), (''value'', JFloat 8.5), (''unit'', JStr ''g/dL''),
           (''status'', JStr ''low''),
           (''ref_range'', JObj [(''low'', JFloat 12), (''high'', JFloat 17)])]"

definition n_hemoglobin :: string where
  \<open>n_hemoglobin = ''{"tests": [{"name": "Hemoglobin", "value": 8.5, "unit": "g/dL", "status": "low", "ref_range": {"low": 12.0, "high": 17.0}}]}''\<close>

definition v_ok :: string where
  \<open>v_ok = ''{"status": "ok", "confidence": 0.9}''\<close>

definition v_rejected :: string where
  \<open>v_rejected = ''{"status": "unprocessed", "reason": "value not found in text", "confidence": 0.2}''\<close>

definition v_no_status :: string where
  \<open>v_no_status = ''{"confidence": 0.9}''\<close>

definition s_hemoglobin :: string where
  \<open>s_hemoglobin = ''{"summary": "Your hemoglobin is low.", "explanations": []}''\<close>

definition example_table :: "(string \<times> (py_exception + dict)) list" where
  "example_table =
     [(n_hemoglobin, Inr [(''tests'', JList [hemoglobin])]),
      (v_ok, Inr [(''status'', JStr ''ok''), (''confidence'', JFloat 0.9)]),
      (v_rejected, Inr [(''status'', JStr ''unprocessed''),
                        (''reason'', JStr ''value not found in text''),
                        (''confidence'', JFloat 0.2)]),
      (v_no_status, Inr [(''confidence'', JFloat 0.9)]),
      (s_hemoglobin, Inr [(''summary'', JStr ''Your hemoglobin is low.''), (''explanations'', JList [])])]"

definition ph_record :: json where
  "ph_record =
     JObj [(''name'', JStr ''Urine pH''), (''value'', JFloat 6.0), (''unit'', JStr []),
           (''status'', JStr ''normal''),
           (''ref_range'', JObj [(''low'', JFloat 4.5), (''high'', JFloat 8.0)])]"

definition n_ph :: string where
  \<open>n_ph = ''{"tests": [{"name": "Urine pH", "value": 6.0, "unit": "", "status": "normal", "ref_range": {"low": 4.5, "high": 8.0}}]}''\<close>

definition prose_clean :: string where
  \<open>prose_clean = ''Here is the result: {"status": "ok", "confidence": 0.9} Hope this helps.''\<close>

definition prose_brace :: string where
  \<open>prose_brace = ''Sure! {"status": "ok", "confidence": 0.9} Done :-}''\<close>

definition prose_table :: "(string \<times> (py_exception + dict)) list" where
  \<open>prose_table =
     [(n_ph, Inr [(''tests'', JList [ph_record])]),
      (''{"status": "ok", "confidence": 0.9} Done :-}'',
       Inl (JSONDecodeError ''Extra data: line 1 column 37 (char 36)''))]\<close>

definition accepted_run :: "page deps" where
  "accepted_run =
     example_deps (answers n_hemoglobin v_ok s_hemoglobin) example_table [([97, 97], ''Hb: 8.5 g/dL'')]"

definition rejected_run :: "page deps" where
  "rejected_run =
     example_deps (answers n_hemoglobin v_rejected s_hemoglobin) example_table [([97, 97], ''Hb: 8.5 g/dL'')]"

definition no_status_run :: "page deps" where
  "no_status_run = example_deps (answers n_hemoglobin v_no_status s_hemoglobin) example_table []"

definition transport_failure_run :: "page deps" where
  "transport_failure_run =
     example_deps (\<lambda>p. Inl (LibraryError ''Connection refused'')) example_table []"

definition ph_run :: "page deps" where
  "ph_run = example_deps (answers n_ph v_ok s_hemoglobin) (prose_table @ example_table) []"

definition prose_clean_run :: "page deps" where
  "prose_clean_run = example_deps (answers n_hemoglobin prose_clean s_hemoglobin) (prose_table @ example_table) []"

definition prose_brace_run :: "page deps" where
  "prose_brace_run = example_deps (answers n_hemoglobin prose_brace s_hemoglobin) (prose_table @ example_table) []"

definition two_page_run :: "page deps" where
  "two_page_run =
     example_deps (answers n_hemoglobin v_ok s_hemoglobin) example_table
       [([90, 90], ''Hb: 8.5''), ([10], ''g/dL'')]"

definition unreadable_run :: "page deps" where
  "unreadable_run = example_deps (answers n_hemoglobin v_ok s_hemoglobin) example_table []"

definition scanned_image :: upload_file where
  "scanned_image = \<lparr>content_type = Some ''image/png'', content = ''PNG''\<rparr>"

definition scanned_pdf :: upload_file where
  "scanned_pdf = \<lparr>content_type = Some ''application/pdf'', content = ''%PDF''\<rparr>"

section \<open>The statements of the specification\<close>

text \<open>
  The bounds of a candidate's reference range: \<^verbatim>\<open>None\<close> when \<^verbatim>\<open>ref_range\<close> is
  not a dictionary or has no such entry.
\<close>

definition ref_bound :: "dict \<Rightarrow> string \<Rightarrow> json" where
  "ref_bound d k = (case dict_get d ''ref_range'' of JObj r \<Rightarrow> dict_get r k | _ \<Rightarrow> JNull)"

text \<open>The completeness of a candidate as the specification words it: the six fields
  are present and not null.\<close>

definition spec_all_present :: "json \<Rightarrow> bool" where
  "spec_all_present c =
     (case c of
        JObj d \<Rightarrow>
          dict_get d ''name'' \<noteq> JNull \<and> dict_get d ''value'' \<noteq> JNull \<and>
          dict_get d ''unit'' \<noteq> JNull \<and> dict_get d ''status'' \<noteq> JNull \<and>
          ref_bound d ''low'' \<noteq> JNull \<and> ref_bound d ''high'' \<noteq> JNull
      | _ \<Rightarrow> False)"

text \<open>The completeness the filter decides: name, unit and status are present and
  neither null nor empty (nor zero, nor false); value and the two bounds are present and
  not null.\<close>

definition spec_admitted :: "json \<Rightarrow> bool" where
  "spec_admitted c =
     (case c of
        JObj d \<Rightarrow>
          truthy (dict_get d ''name'') \<and> dict_get d ''value'' \<noteq> JNull \<and>
          truthy (dict_get d ''unit'') \<and> truthy (dict_get d ''status'') \<and>
          ref_bound d ''low'' \<noteq> JNull \<and> ref_bound d ''high'' \<noteq> JNull
      | _ \<Rightarrow> False)"

text \<open>A candidate in the shape of a record: a dictionary whose \<^verbatim>\<open>ref_range\<close>, if it
  is not absent, null or empty, is a dictionary.\<close>

definition record_shaped :: "json \<Rightarrow> bool" where
  "record_shaped c =
     (case c of
        JObj d \<Rightarrow> (case dict_get d ''ref_range'' of JObj r \<Rightarrow> True | v \<Rightarrow> \<not> truthy v)
      | _ \<Rightarrow> False)"

text \<open>The confidence of a document as the specification words it: the mean of the
  positive token confidences of all pages together, over 100, rounded to two decimals; 0
  when there is none. The mean, the division and the rounding are those of floats.\<close>

definition spec_pooled_confidence :: "int list list \<Rightarrow> real" where
  "spec_pooled_confidence confs =
     (let pooled = concat (map (filter (\<lambda>c. 0 < c)) confs)
      in if pooled = [] then 0
         else py_round
                (divide_by_100 (to_double (of_int (sum_list pooled) / of_nat (length pooled)))) 2)"

text \<open>The result of a rejection by the validator's exception handler.\<close>

definition validation_error :: "string \<Rightarrow> dict" where
  "validation_error message =
     [(''status'', JStr ''unprocessed''),
      (''reason'', JStr (''Validation error: '' @ message)),
      (''confidence'', JFloat 0)]"

section \<open>Sequencing and evaluation lemmas\<close>

lemma traced_then_unit [simp]: "traced_then ([ev], Inr ()) f = (ev # fst (f ()), snd (f ()))"
  by (simp add: traced_then_def split: prod.splits)

lemma traced_then_Inl [simp]: "traced_then (t, Inl e) f = (t, Inl e)"
  by (simp add: traced_then_def)

lemma traced_then_Inr [simp]: "traced_then (t, Inr x) f = (t @ fst (f x), snd (f x))"
  by (simp add: traced_then_def split: prod.splits)

lemma except_Exception_Inl [simp]: "except_Exception (t, Inl e) h = (t, h e)"
  by (simp add: except_Exception_def)

lemma except_Exception_Inr [simp]: "except_Exception (t, Inr x) h = (t, Inr x)"
  by (simp add: except_Exception_def)

lemma fst_generate_json [simp]: "fst (generate_json deps p) = [Post p]"
  by (simp add: generate_json_def)

lemma generate_json_pair: "generate_json deps p = ([Post p], snd (generate_json deps p))"
  by (simp add: generate_json_def)

lemma map_of_dict_set: "map_of (dict_set d k v) k' = (if k' = k then Some v else map_of d k')"
  by (induction d k v rule: dict_set.induct) auto

lemmas eval_defs =
  example_deps_def completion_def table_loads_def example_table_def prose_table_def
  n_hemoglobin_def v_ok_def v_rejected_def v_no_status_def s_hemoglobin_def n_ph_def
  prose_clean_def prose_brace_def hemoglobin_def ph_record_def
  generate_json_def generate_json_except_def generate_json_try_def and_then_def response_text_of_def
  dict_get_default_def dict_get_def dict_item_def has_key_def
  strip_def isspace_def json_str_of_def str_find_def str_rfind_def py_slice_def slice_index_def

section \<open>Short-circuits on empty input\<close>

text \<open>
  C8. Whatever the text, \<^verbatim>\<open>validate_extraction\<close> on an empty list of tests returns the
  rejection with status \<^verbatim>\<open>unprocessed\<close>, confidence 0.0 and the reason
  \<^verbatim>\<open>No tests extracted from input\<close>, and posts nothing to the oracle: the trace holds
  the entry into the method and no request.
\<close>

theorem validate_extraction_empty:
  "validate_extraction deps original_text (JList []) =
     ([Validate original_text (JList [])],
      Inr [(''status'', JStr ''unprocessed''),
           (''reason'', JStr ''No tests extracted from input''),
           (''confidence'', JFloat 0)])"
  by (simp add: validate_extraction_def validate_extraction_try_def)

theorem validate_extraction_empty_witness:
  "validate_extraction accepted_run ''Hb: 8.5 g/dL'' (JList []) =
     ([Validate ''Hb: 8.5 g/dL'' (JList [])],
      Inr [(''status'', JStr ''unprocessed''),
           (''reason'', JStr ''No tests extracted from input''),
           (''confidence'', JFloat 0)])"
  by (rule validate_extraction_empty)

text \<open>
  C9, as amended. \<^verbatim>\<open>generate_summary\<close> on an empty list of tests returns the fixed
  dictionary with the summary \<^verbatim>\<open>No test results to summarize.\<close>, no explanations and,
  as a third entry, the status \<^verbatim>\<open>ok\<close>; it posts nothing to the oracle.
\<close>

theorem generate_summary_empty:
  "generate_summary deps (JList []) =
     ([Summarize (JList [])],
      Inr [(''summary'', JStr ''No test results to summarize.''),
           (''explanations'', JList []),
           (''status'', JStr ''ok'')])"
  by (simp add: generate_summary_def)

theorem generate_summary_empty_witness:
  "generate_summary accepted_run (JList []) =
     ([Summarize (JList [])],
      Inr [(''summary'', JStr ''No test results to summarize.''),
           (''explanations'', JList []),
           (''status'', JStr ''ok'')])"
  by (rule generate_summary_empty)

text \<open>The returned dictionary is not the two-entry one the claim gives as the exact
  result.\<close>

theorem generate_summary_empty_has_status:
  "snd (generate_summary accepted_run (JList [])) \<noteq>
     Inr [(''summary'', JStr ''No test results to summarize.''), (''explanations'', JList [])]"
  by (simp add: generate_summary_def)

section \<open>The validator never raises\<close>

lemma validate_try_cases:
  "truthy tests \<Longrightarrow> validate_extraction_try deps text tests =
     ([Post (ValidationPrompt text tests)],
      case snd (generate_json deps (ValidationPrompt text tests)) of
        Inl e \<Rightarrow> Inl e
      | Inr result \<Rightarrow>
          (case map_of result ''status'' of
             None \<Rightarrow> Inl (Exception (''LLM validation response missing '' @ quoted ''status'' @ '' field''))
           | Some status \<Rightarrow>
               Inr (if status = JStr ''ok''
                    then [(''status'', status), (''reason'', dict_get result ''reason''),
                          (''confidence'', dict_get_default result ''confidence'' (JFloat 0)),
                          (''tests'', tests)]
                    else [(''status'', status), (''reason'', dict_get result ''reason''),
                          (''confidence'', dict_get_default result ''confidence'' (JFloat 0))])))"
  apply (subst validate_extraction_try_def)
  apply (subst generate_json_pair)
  apply (cases "snd (generate_json deps (ValidationPrompt text tests))")
   apply (simp_all add: Let_def split: option.splits)
  done

lemma validate_extraction_split:
  "validate_extraction deps text tests =
     (Validate text tests # fst (validate_extraction_try deps text tests),
      case snd (validate_extraction_try deps text tests) of
        Inl e \<Rightarrow> Inr (validation_error (str_exc e))
      | Inr d \<Rightarrow> Inr d)"
  by (cases "validate_extraction_try deps text tests"; cases "snd (validate_extraction_try deps text tests)")
     (auto simp add: validate_extraction_def validation_error_def)

lemma no_status_json:
  "snd (generate_json no_status_run (ValidationPrompt t ts)) = Inr [(''confidence'', JFloat 0.9)]"
  by (simp add: no_status_run_def eval_defs)

lemma transport_failure_json:
  "snd (generate_json transport_failure_run p) = Inl (Exception ''LLM generation failed: Connection refused'')"
  by (simp add: transport_failure_run_def eval_defs)

text \<open>
  C10. On a non-empty list of tests \<^verbatim>\<open>validate_extraction\<close> always returns a dictionary
  and never raises, and the dictionary has a \<^verbatim>\<open>status\<close> entry. Whenever its
  \<^verbatim>\<open>try\<close> block raises an exception \<open>e\<close> (the oracle call failed, the completion was
  empty or could not be parsed, or the answer had no status), the dictionary is the
  rejection with status \<^verbatim>\<open>unprocessed\<close>, confidence 0.0 and the non-empty reason
  \<^verbatim>\<open>Validation error: \<close> followed by \<^verbatim>\<open>str(e)\<close>.
\<close>

theorem validate_extraction_total:
  assumes "tests = JList ts" and "ts \<noteq> []"
  shows "\<exists>d. snd (validate_extraction deps text tests) = Inr d \<and> has_key d ''status'' \<and>
          (\<forall>e. snd (validate_extraction_try deps text tests) = Inl e \<longrightarrow>
               d = validation_error (str_exc e) \<and>
               map_of d ''status'' = Some (JStr ''unprocessed'') \<and>
               map_of d ''confidence'' = Some (JFloat 0) \<and>
               (\<exists>r. map_of d ''reason'' = Some (JStr r) \<and> r \<noteq> []))"
proof -
  have tr: "truthy tests" using assms by simp
  show ?thesis
  proof (cases "snd (validate_extraction_try deps text tests)")
    case (Inl e)
    then show ?thesis
      by (simp add: validate_extraction_split validation_error_def has_key_def)
  next
    case (Inr d)
    then have "has_key d ''status''"
      by (auto simp add: validate_try_cases[OF tr] has_key_def split: sum.splits option.splits if_splits)
    with Inr show ?thesis
      by (simp add: validate_extraction_split)
  qed
qed

theorem validate_extraction_total_witness:
  "snd (validate_extraction transport_failure_run ''Hb: 8.5 g/dL'' (JList [hemoglobin])) =
     Inr [(''status'', JStr ''unprocessed''),
          (''reason'', JStr ''Validation error: LLM generation failed: Connection refused''),
          (''confidence'', JFloat 0)]"
proof -
  have failed: "snd (validate_extraction_try transport_failure_run ''Hb: 8.5 g/dL'' (JList [hemoglobin])) =
      Inl (Exception ''LLM generation failed: Connection refused'')"
    by (simp add: validate_try_cases transport_failure_json)
  from validate_extraction_total [of "JList [hemoglobin]" "[hemoglobin]" transport_failure_run "''Hb: 8.5 g/dL''"]
  obtain d where "snd (validate_extraction transport_failure_run ''Hb: 8.5 g/dL'' (JList [hemoglobin])) = Inr d"
    and "\<forall>e. snd (validate_extraction_try transport_failure_run ''Hb: 8.5 g/dL'' (JList [hemoglobin])) = Inl e \<longrightarrow>
               d = validation_error (str_exc e) \<and>
               map_of d ''status'' = Some (JStr ''unprocessed'') \<and>
               map_of d ''confidence'' = Some (JFloat 0) \<and>
               (\<exists>r. map_of d ''reason'' = Some (JStr r) \<and> r \<noteq> [])"
    by auto
  with failed show ?thesis by (simp add: validation_error_def)
qed

text \<open>
  C7, as amended. On a non-empty list of tests, when the oracle's answer parses to a
  dictionary without a \<^verbatim>\<open>status\<close> entry, \<^verbatim>\<open>validate_extraction\<close> does not raise: it
  returns the rejection with status \<^verbatim>\<open>unprocessed\<close>, confidence 0.0 and the reason
  \<^verbatim>\<open>Validation error: LLM validation response missing 'status' field\<close>, with a capital
  V.
\<close>

theorem missing_status_rejected:
  assumes "ts \<noteq> []"
    and "snd (generate_json deps (ValidationPrompt text (JList ts))) = Inr result"
    and "\<not> has_key result ''status''"
  shows "validate_extraction deps text (JList ts) =
           ([Validate text (JList ts), Post (ValidationPrompt text (JList ts))],
            Inr [(''status'', JStr ''unprocessed''),
                 (''reason'', JStr (''Validation error: LLM validation response missing '' @ quoted ''status'' @ '' field'')),
                 (''confidence'', JFloat 0)])"
  using assms
  by (simp add: validate_extraction_split validate_try_cases has_key_def validation_error_def)

theorem missing_status_rejected_witness:
  "validate_extraction no_status_run ''Hb: 8.5 g/dL'' (JList [hemoglobin]) =
     ([Validate ''Hb: 8.5 g/dL'' (JList [hemoglobin]), Post (ValidationPrompt ''Hb: 8.5 g/dL'' (JList [hemoglobin]))],
      Inr [(''status'', JStr ''unprocessed''),
           (''reason'', JStr (''Validation error: LLM validation response missing '' @ quoted ''status'' @ '' field'')),
           (''confidence'', JFloat 0)])"
  using missing_status_rejected [of "[hemoglobin]" no_status_run "''Hb: 8.5 g/dL''" "[(''confidence'', JFloat 0.9)]"]
  by (simp add: no_status_json has_key_def)

text \<open>The reason the code gives does not start with the lower-case
  \<^verbatim>\<open>validation error: \<close> of the claim.\<close>

theorem missing_status_reason_capital:
  "snd (validate_extraction no_status_run ''Hb: 8.5 g/dL'' (JList [hemoglobin])) =
     Inr [(''status'', JStr ''unprocessed''),
          (''reason'', JStr (''Validation error: LLM validation response missing '' @ quoted ''status'' @ '' field'')),
          (''confidence'', JFloat 0)]
   \<and> \<not> startswith (''Validation error: LLM validation response missing '' @ quoted ''status'' @ '' field'')
          ''validation error: ''"
  by (simp add: validate_extraction_split validate_try_cases no_status_json validation_error_def startswith_def)

section \<open>The completeness filter\<close>

lemma py_and_Inr [simp]: "py_and (Inr b) r = (if b then r else Inr False)"
  by (simp add: py_and_def and_then_def)

lemma truth_of_get [simp]: "truth_of (py_get (JObj d) k) = Inr (truthy (dict_get d k))"
  by (simp add: truth_of_def py_get_def and_then_def dict_get_def)

lemma not_None_of_get [simp]: "not_None_of (py_get (JObj d) k) = Inr (dict_get d k \<noteq> JNull)"
  by (cases "dict_get d k") (simp_all add: not_None_of_def py_get_def and_then_def dict_get_def)

lemma complete_test_record:
  assumes "record_shaped c"
  shows "complete_test c = Inr (spec_admitted c)"
proof -
  from assms obtain d where c: "c = JObj d"
    by (cases c) (simp_all add: record_shaped_def)
  show ?thesis
  proof (cases "truthy (dict_get d ''ref_range'')")
    case False
    then have "ref_bound d ''low'' = JNull"
      using assms c by (cases "dict_get d ''ref_range''") (simp_all add: ref_bound_def record_shaped_def dict_get_def dict_get_default_def)
    with False show ?thesis
      by (simp add: c complete_test_def spec_admitted_def)
  next
    case True
    with assms c obtain r where r: "dict_get d ''ref_range'' = JObj r"
      by (cases "dict_get d ''ref_range''") (simp_all add: record_shaped_def)
    then have dflt: "dict_get_default d ''ref_range'' (JObj []) = JObj r"
      by (auto simp add: dict_get_def dict_get_default_def split: option.splits)
    have low: "not_None_of (and_then (py_get_default (JObj d) ''ref_range'' (JObj [])) (\<lambda>r. py_get r ''low'')) = Inr (ref_bound d ''low'' \<noteq> JNull)"
      and high: "not_None_of (and_then (py_get_default (JObj d) ''ref_range'' (JObj [])) (\<lambda>r. py_get r ''high'')) = Inr (ref_bound d ''high'' \<noteq> JNull)"
      by (simp_all add: dflt and_then_def ref_bound_def r)
    show ?thesis
      unfolding c complete_test_def low high
      using True by (simp add: spec_admitted_def)
  qed
qed

lemma clean_tests_records:
  "list_all record_shaped cs \<Longrightarrow> clean_tests cs acc = Inr (acc @ filter spec_admitted cs)"
  by (induction cs arbitrary: acc) (simp_all add: complete_test_record)

lemma ph_json:
  "snd (generate_json ph_run (NormalizationPrompt t)) = Inr [(''tests'', JList [ph_record])]"
  by (simp add: ph_run_def eval_defs)

lemma accepted_json_n:
  "snd (generate_json accepted_run (NormalizationPrompt t)) = Inr [(''tests'', JList [hemoglobin])]"
  by (simp add: accepted_run_def eval_defs)

lemma hemoglobin_shaped: "record_shaped hemoglobin"
  by (simp add: record_shaped_def hemoglobin_def dict_get_def dict_get_default_def)

lemma hemoglobin_admitted: "spec_admitted hemoglobin"
  by (simp add: spec_admitted_def ref_bound_def hemoglobin_def dict_get_def dict_get_default_def)

text \<open>A candidate whose \<^verbatim>\<open>ref_range\<close> is a text is not dropped: the condition
  raises, and with it the whole call.\<close>

lemma ref_range_text_raises:
  "complete_test (JObj [(''name'', JStr ''Hemoglobin''), (''value'', JFloat 8.5), (''unit'', JStr ''g/dL''),
                        (''status'', JStr ''low''), (''ref_range'', JStr ''12.0-17.0'')]) =
     Inl (AttributeError (quoted ''str'' @ '' object has no attribute '' @ quoted ''get''))"
  by (simp add: complete_test_def dict_get_def dict_get_default_def and_then_def not_None_of_def
      truth_of_def py_and_def py_get_def no_attribute_def)

text \<open>One candidate that is not a dictionary fails the loop for the whole list, the
  complete record before it included.\<close>

lemma junk_candidate_raises:
  "clean_tests [hemoglobin, JStr ''junk''] [] =
     Inl (AttributeError (quoted ''str'' @ '' object has no attribute '' @ quoted ''get''))"
proof -
  have "complete_test hemoglobin = Inr True"
    using complete_test_record [OF hemoglobin_shaped] hemoglobin_admitted by simp
  moreover have "complete_test (JStr ''junk'') =
      Inl (AttributeError (quoted ''str'' @ '' object has no attribute '' @ quoted ''get''))"
    by (simp add: complete_test_def py_get_def py_and_def truth_of_def and_then_def no_attribute_def)
  ultimately show ?thesis by simp
qed

text \<open>
  C1, as amended. When every candidate of the oracle's extraction answer is a dictionary
  whose \<^verbatim>\<open>ref_range\<close>, if not absent, null or empty, is a dictionary,
  \<^verbatim>\<open>normalize_tests\<close> returns without raising, and a candidate is among the tests of
  its result if and only if its name, unit and status are present and neither null nor
  empty and its value, \<^verbatim>\<open>ref_range.low\<close> and \<^verbatim>\<open>ref_range.high\<close> are present and
  not null: the tests are those candidates, unchanged and in their order, and the others
  are dropped. The rest of the answer is returned as it came, with the confidence 0.8
  added if it had none.
\<close>

theorem completeness_filter:
  assumes "snd (generate_json deps (NormalizationPrompt text)) = Inr result"
    and "map_of result ''tests'' = Some (JList candidates)"
    and "list_all record_shaped candidates"
  shows "\<exists>normalized.
           snd (normalize_tests deps text) = Inr normalized \<and>
           map_of normalized ''tests'' = Some (JList (filter spec_admitted candidates)) \<and>
           normalized =
             dict_set (if has_key result ''normalization_confidence'' then result
                       else dict_set result ''normalization_confidence'' (JFloat 0.8))
               ''tests'' (JList (filter spec_admitted candidates))"
proof -
  have gen: "generate_json deps (NormalizationPrompt text) = ([Post (NormalizationPrompt text)], Inr result)"
    using assms(1) by (subst generate_json_pair) simp
  show ?thesis
  proof (cases candidates)
    case Nil
    then show ?thesis using assms(2)
      by (simp add: normalize_tests_def gen has_key_def dict_item_def map_of_dict_set and_then_def Let_def)
  next
    case (Cons c cs)
    then show ?thesis using assms(2,3) clean_tests_records[OF assms(3), of "[]"]
      by (simp add: normalize_tests_def gen has_key_def dict_item_def map_of_dict_set and_then_def Let_def)
  qed
qed

theorem completeness_filter_witness:
  "snd (normalize_tests accepted_run ''Hb: 8.5 g/dL'') =
     Inr [(''tests'', JList [hemoglobin]), (''normalization_confidence'', JFloat 0.8)]"
  using completeness_filter [of accepted_run "''Hb: 8.5 g/dL''" "[(''tests'', JList [hemoglobin])]" "[hemoglobin]"]
  by (simp add: accepted_json_n hemoglobin_shaped hemoglobin_admitted has_key_def)

text \<open>A candidate with all six fields present and not null, its unit the empty
  string, is dropped.\<close>

theorem empty_unit_dropped:
  "spec_all_present ph_record \<and>
   snd (normalize_tests ph_run ''Urine pH 6.0'') =
     Inr [(''tests'', JList []), (''normalization_confidence'', JFloat 0.8)]"
proof -
  have "record_shaped ph_record"
    by (simp add: record_shaped_def ph_record_def dict_get_def dict_get_default_def)
  then have "clean_tests [ph_record] [] = Inr (filter spec_admitted [ph_record])"
    using clean_tests_records [of "[ph_record]" "[]"] by simp
  moreover have "\<not> spec_admitted ph_record"
    by (simp add: spec_admitted_def ph_record_def dict_get_def dict_get_default_def)
  moreover have "generate_json ph_run (NormalizationPrompt ''Urine pH 6.0'') =
      ([Post (NormalizationPrompt ''Urine pH 6.0'')], Inr [(''tests'', JList [ph_record])])"
    by (subst generate_json_pair) (simp add: ph_json)
  moreover have "spec_all_present ph_record"
    by (simp add: spec_all_present_def ref_bound_def ph_record_def dict_get_def dict_get_default_def)
  ultimately show ?thesis
    by (simp add: normalize_tests_def has_key_def dict_item_def and_then_def Let_def)
qed

section \<open>The JSON object of a completion\<close>

lemma takeWhile_until: "c \<notin> set xs \<Longrightarrow> takeWhile (\<lambda>x. x \<noteq> c) (xs @ c # ys) = xs"
  by (induction xs) auto

lemma str_find_first: "c \<notin> set pre \<Longrightarrow> str_find (pre @ c # rest) c = int (length pre)"
  by (simp add: str_find_def takeWhile_until)

lemma str_rfind_last: "c \<notin> set suf \<Longrightarrow> str_rfind (xs @ c # suf) c = int (length xs)"
  by (simp add: str_rfind_def takeWhile_until)

lemma str_find_none: "c \<notin> set s \<Longrightarrow> str_find s c = - 1"
  by (simp add: str_find_def)

lemma str_rfind_none: "c \<notin> set s \<Longrightarrow> str_rfind s c = - 1"
  by (simp add: str_rfind_def)

lemma py_slice_middle:
  "py_slice (pre @ m @ suf) (int (length pre)) (int (length pre + length m)) = m"
  by (simp add: py_slice_def slice_index_def Let_def)

lemma py_slice_inverted:
  "b \<le> a \<Longrightarrow> 0 \<le> b \<Longrightarrow> py_slice s a b = []"
  by (simp add: py_slice_def slice_index_def Let_def min_def)

lemma brace_not_space: "\<not> isspace CHR ''{''" "\<not> isspace CHR ''}''"
  by (simp_all add: isspace_def)

lemma strip_between:
  "\<not> isspace c \<Longrightarrow> \<not> isspace d \<Longrightarrow>
   strip (pre @ c # mid @ d # suf) =
     dropWhile isspace pre @ c # mid @ d # rev (dropWhile isspace (rev suf))"
  by (simp add: strip_def dropWhile_append3)

lemma set_strip: "set (strip s) \<subseteq> set s"
proof -
  have "set (dropWhile isspace (rev (dropWhile isspace s))) \<subseteq> set (rev (dropWhile isspace s))"
    by (auto dest: set_dropWhileD)
  also have "\<dots> \<subseteq> set s" by (auto dest: set_dropWhileD)
  finally show ?thesis by (simp add: strip_def)
qed

lemma json_str_of_between:
  assumes "CHR ''{'' \<notin> set pre" and "CHR ''}'' \<notin> set suf"
  shows "json_str_of (pre @ CHR ''{'' # mid @ CHR ''}'' # suf) = Inr (CHR ''{'' # mid @ [CHR ''}''])"
proof -
  let ?t = "pre @ CHR ''{'' # mid @ CHR ''}'' # suf"
  have f: "str_find ?t CHR ''{'' = int (length pre)"
    using assms(1) by (rule str_find_first)
  have "str_rfind ((pre @ CHR ''{'' # mid) @ CHR ''}'' # suf) CHR ''}'' = int (length (pre @ CHR ''{'' # mid))"
    using assms(2) by (rule str_rfind_last)
  then have r: "str_rfind ?t CHR ''}'' = int (length pre + length mid + 1)"
    by simp
  have "py_slice (pre @ (CHR ''{'' # mid @ [CHR ''}'']) @ suf) (int (length pre))
          (int (length pre + length (CHR ''{'' # mid @ [CHR ''}'']))) = CHR ''{'' # mid @ [CHR ''}'']"
    by (rule py_slice_middle)
  then have s: "py_slice ?t (int (length pre)) (int (length pre + length mid + 1) + 1) = CHR ''{'' # mid @ [CHR ''}'']"
    by (simp add: add.commute add.left_commute)
  show ?thesis
    unfolding json_str_of_def Let_def f r using s by simp
qed

lemma json_str_of_inverted:
  assumes "CHR ''{'' \<notin> set a" and "CHR ''{'' \<notin> set b" and "CHR ''}'' \<notin> set b" and "CHR ''}'' \<notin> set c"
  shows "json_str_of (a @ CHR ''}'' # b @ CHR ''{'' # c) = Inr []"
proof -
  let ?t = "a @ CHR ''}'' # b @ CHR ''{'' # c"
  have "str_find ((a @ CHR ''}'' # b) @ CHR ''{'' # c) CHR ''{'' = int (length (a @ CHR ''}'' # b))"
    using assms(1,2) by (intro str_find_first) simp
  then have f: "str_find ?t CHR ''{'' = int (length a + length b + 1)" by simp
  have r: "str_rfind ?t CHR ''}'' = int (length a)"
    using assms(3,4) by (intro str_rfind_last) simp
  show ?thesis
    unfolding json_str_of_def Let_def f r by (simp add: py_slice_inverted)
qed

lemma json_str_of_none:
  "CHR ''{'' \<notin> set s \<or> CHR ''}'' \<notin> set s \<Longrightarrow>
   json_str_of s = Inl (Exception ''No JSON object found in LLM response'')"
  by (auto simp add: json_str_of_def Let_def str_find_none str_rfind_none)


lemma generate_json_text:
  assumes "post deps p = Inr response" and "status_code response = 200"
    and "body response = Inr (JObj answer)" and "map_of answer ''response'' = Some (JStr text)"
  shows "snd (generate_json deps p) =
           (if strip text = [] then Inl (Exception ''LLM generation failed: Empty response from Ollama'')
            else case json_str_of (strip text) of
                   Inl e \<Rightarrow> Inl (generate_json_except e)
                 | Inr json_str \<Rightarrow> map_sum generate_json_except id (json_loads deps json_str))"
  using assms
  by (cases "json_str_of (strip text)"; cases "json_loads deps (projr (json_str_of (strip text)))")
     (simp_all add: generate_json_def generate_json_try_def and_then_def response_text_of_def
        dict_get_default_def generate_json_except_def)

text \<open>
  C3, as amended. When the oracle answers with status 200 and a body whose
  \<^verbatim>\<open>response\<close> is a text, \<^verbatim>\<open>generate_json\<close> strips the text and hands to
  \<^verbatim>\<open>json.loads\<close>, once, the part from the first opening brace to the last closing
  brace, both included; it returns what the parser returns and raises in place of what
  the parser raises:
  \<^item> a text without an opening or without a closing brace is an error, and nothing is
    parsed;
  \<^item> for a text made of prose without an opening brace, then an object from its opening
    to its closing brace, then prose without a closing brace, the parsed text is that
    object, byte for byte, whatever the length of the prose;
  \<^item> when the last closing brace comes before the first opening brace, the parsed text
    is empty.
\<close>

theorem brace_extraction:
  assumes "post deps p = Inr response" and "status_code response = 200"
    and "body response = Inr (JObj answer)" and "map_of answer ''response'' = Some (JStr text)"
  shows "(CHR ''{'' \<notin> set text \<or> CHR ''}'' \<notin> set text \<longrightarrow>
            snd (generate_json deps p) =
              Inl (Exception (''LLM generation failed: '' @
                     (if strip text = [] then ''Empty response from Ollama''
                      else ''No JSON object found in LLM response''))))
       \<and> (\<forall>pre mid suf.
            text = pre @ CHR ''{'' # mid @ CHR ''}'' # suf \<and> CHR ''{'' \<notin> set pre \<and> CHR ''}'' \<notin> set suf \<longrightarrow>
            snd (generate_json deps p) =
              map_sum generate_json_except id (json_loads deps (CHR ''{'' # mid @ [CHR ''}''])))
       \<and> (\<forall>a b c.
            text = a @ CHR ''}'' # b @ CHR ''{'' # c \<and> CHR ''{'' \<notin> set a \<and> CHR ''{'' \<notin> set b \<and>
            CHR ''}'' \<notin> set b \<and> CHR ''}'' \<notin> set c \<longrightarrow>
            snd (generate_json deps p) = map_sum generate_json_except id (json_loads deps []))"
proof (intro conjI allI impI)
  note gen = generate_json_text [OF assms]
  {
    assume none: "CHR ''{'' \<notin> set text \<or> CHR ''}'' \<notin> set text"
    have "CHR ''{'' \<notin> set (strip text) \<or> CHR ''}'' \<notin> set (strip text)"
      using none set_strip [of "text"] by auto
    then have "json_str_of (strip text) = Inl (Exception ''No JSON object found in LLM response'')"
      by (rule json_str_of_none)
    then show "snd (generate_json deps p) =
              Inl (Exception (''LLM generation failed: '' @
                     (if strip text = [] then ''Empty response from Ollama''
                      else ''No JSON object found in LLM response'')))"
      by (simp add: gen generate_json_except_def)
  }
  {
    fix pre mid suf
    assume h: "text = pre @ CHR ''{'' # mid @ CHR ''}'' # suf \<and> CHR ''{'' \<notin> set pre \<and> CHR ''}'' \<notin> set suf"
    let ?pre = "dropWhile isspace pre" and ?suf = "rev (dropWhile isspace (rev suf))"
    have st: "strip text = ?pre @ CHR ''{'' # mid @ CHR ''}'' # ?suf"
      using h by (simp add: strip_between brace_not_space)
    have "CHR ''{'' \<notin> set ?pre" using h by (auto dest: set_dropWhileD)
    moreover have "CHR ''}'' \<notin> set ?suf" using h by (auto dest: set_dropWhileD)
    ultimately have "json_str_of (strip text) = Inr (CHR ''{'' # mid @ [CHR ''}''])"
      unfolding st by (rule json_str_of_between)
    then show "snd (generate_json deps p) =
              map_sum generate_json_except id (json_loads deps (CHR ''{'' # mid @ [CHR ''}'']))"
      by (simp add: gen st)
  }
  {
    fix a b c
    assume h: "text = a @ CHR ''}'' # b @ CHR ''{'' # c \<and> CHR ''{'' \<notin> set a \<and> CHR ''{'' \<notin> set b \<and>
            CHR ''}'' \<notin> set b \<and> CHR ''}'' \<notin> set c"
    let ?a = "dropWhile isspace a" and ?c = "rev (dropWhile isspace (rev c))"
    have st: "strip text = ?a @ CHR ''}'' # b @ CHR ''{'' # ?c"
      using h by (simp add: strip_between brace_not_space)
    have "CHR ''{'' \<notin> set ?a" using h by (auto dest: set_dropWhileD)
    moreover have "CHR ''}'' \<notin> set ?c" using h by (auto dest: set_dropWhileD)
    ultimately have "json_str_of (strip text) = Inr []"
      unfolding st using h by (intro json_str_of_inverted) simp_all
    then show "snd (generate_json deps p) = map_sum generate_json_except id (json_loads deps [])"
      by (simp add: gen st)
  }
qed

theorem brace_extraction_witness:
  \<open>snd (generate_json prose_clean_run (ValidationPrompt ''Hb: 8.5 g/dL'' (JList [hemoglobin]))) =
     Inr [(''status'', JStr ''ok''), (''confidence'', JFloat 0.9)]\<close>
proof -
  let ?p = "ValidationPrompt ''Hb: 8.5 g/dL'' (JList [hemoglobin])"
  let ?answer = "[(''model'', JStr ''llama3.2:latest''), (''response'', JStr prose_clean), (''done'', JBool True)]"
  let ?response = "\<lparr>status_code = 200, body = Inr (JObj ?answer)\<rparr>"
  have posted: "post prose_clean_run ?p = Inr ?response"
    by (simp add: prose_clean_run_def example_deps_def completion_def)
  have ok: "status_code ?response = 200" and decoded: "body ?response = Inr (JObj ?answer)"
    and completion: "map_of ?answer ''response'' = Some (JStr prose_clean)"
    by simp_all
  have split: \<open>prose_clean = ''Here is the result: '' @ CHR ''{'' # ''"status": "ok", "confidence": 0.9'' @ CHR ''}'' # '' Hope this helps.''
      \<and> CHR ''{'' \<notin> set ''Here is the result: '' \<and> CHR ''}'' \<notin> set '' Hope this helps.''\<close>
    by (simp add: prose_clean_def)
  have loads: \<open>json_loads prose_clean_run (CHR ''{'' # ''"status": "ok", "confidence": 0.9'' @ [CHR ''}'']) =
      Inr [(''status'', JStr ''ok''), (''confidence'', JFloat 0.9)]\<close>
    by (simp add: prose_clean_run_def eval_defs)
  from brace_extraction [OF posted ok decoded completion]
  have \<open>\<forall>pre mid suf.
            prose_clean = pre @ CHR ''{'' # mid @ CHR ''}'' # suf \<and> CHR ''{'' \<notin> set pre \<and> CHR ''}'' \<notin> set suf \<longrightarrow>
            snd (generate_json prose_clean_run ?p) =
              map_sum generate_json_except id (json_loads prose_clean_run (CHR ''{'' # mid @ [CHR ''}'']))\<close>
    by (rule conjunct1 [OF conjunct2])
  with split have \<open>snd (generate_json prose_clean_run ?p) =
          map_sum generate_json_except id
            (json_loads prose_clean_run (CHR ''{'' # ''"status": "ok", "confidence": 0.9'' @ [CHR ''}'']))\<close>
    by blast
  then show ?thesis by (simp only: loads map_sum.simps id_apply)
qed

text \<open>A completion with one object and a closing brace in the prose after it: the
  text handed to the parser is not the object, and the call fails where the object alone
  parses.\<close>

theorem brace_in_prose:
  \<open>json_str_of (strip prose_brace) = Inr (v_ok @ '' Done :-}'') \<and>
   json_loads prose_brace_run v_ok = Inr [(''status'', JStr ''ok''), (''confidence'', JFloat 0.9)] \<and>
   snd (generate_json prose_brace_run (ValidationPrompt ''Hb: 8.5 g/dL'' (JList [hemoglobin]))) =
     Inl (Exception ''Invalid JSON from LLM: Extra data: line 1 column 37 (char 36)'')\<close>
  by (simp add: prose_brace_run_def eval_defs)

section \<open>The confidence of a document\<close>

lemma pow2_powr: "pow2 e = 2 powr real_of_int e"
proof (cases "0 \<le> e")
  case True
  then have "real_of_int e = real (nat e)" by simp
  then have "2 powr real_of_int e = (2::real) ^ nat e"
    by (simp only: powr_realpow zero_less_numeral)
  with True show ?thesis by (simp add: pow2_def)
next
  case False
  then have "real_of_int e = - real (nat (- e))" by simp
  then have "2 powr real_of_int e = 1 / (2::real) ^ nat (- e)"
    by (simp only: powr_minus powr_realpow zero_less_numeral divide_inverse mult_1)
  with False show ?thesis by (simp add: pow2_def)
qed

lemma binade_eqI:
  assumes "pow2 e \<le> \<bar>x\<bar>" and "\<bar>x\<bar> < pow2 (e + 1)"
  shows "binade x = e"
proof -
  have "0 < pow2 e" by (simp add: pow2_powr)
  then have "0 < \<bar>x\<bar>" using assms(1) by linarith
  then show ?thesis
    using assms unfolding binade_def
    by (subst floor_log_eq_powr_iff) (simp_all add: pow2_powr)
qed

lemma to_double_eval:
  assumes "pow2 e \<le> \<bar>x\<bar>" and "\<bar>x\<bar> < pow2 (e + 1)" and "- 1022 \<le> e"
  shows "to_double x = of_int (round_half_even (x / pow2 (e - 52))) * pow2 (e - 52)"
proof -
  have "0 < pow2 e" by (simp add: pow2_powr)
  then have "x \<noteq> 0" using assms(1) by auto
  moreover have "binade x = e" using assms(1,2) by (rule binade_eqI)
  moreover have "max (e - 52) (- 1074) = e - 52" using assms(3) by simp
  ultimately show ?thesis by (simp add: to_double_def Let_def)
qed

lemma to_double_190_3: "to_double (190 / 3) = 8913374262504107 / 2 ^ 47"
  by (subst to_double_eval [where e = 5]) (simp_all add: pow2_def round_half_even_def Let_def)

lemma to_double_0633: "to_double (8913374262504107 / 2 ^ 47 / 100) = 1426139882000657 / 2 ^ 51"
  by (subst to_double_eval [where e = "- 1"]) (simp_all add: pow2_def round_half_even_def Let_def)

lemma to_double_063: "to_double (63 / 100) = 5674535530486825 / 2 ^ 53"
  by (subst to_double_eval [where e = "- 1"]) (simp_all add: pow2_def round_half_even_def Let_def)

lemma to_double_0633_literal: "to_double (633 / 1000) = 712694641031381 / 2 ^ 50"
  by (subst to_double_eval [where e = "- 1"]) (simp_all add: pow2_def round_half_even_def Let_def)

lemma to_double_03: "to_double (3 / 10) = 5404319552844595 / 2 ^ 54"
  by (subst to_double_eval [where e = "- 2"]) (simp_all add: pow2_def round_half_even_def Let_def)

lemma round_0633: "round_half_even (1426139882000657 / 2 ^ 51 * 10 ^ 2) = 63"
  by (simp add: round_half_even_def Let_def)

lemma to_double_97: "to_double 97 = 97"
  by (subst to_double_eval [where e = 6]) (simp_all add: pow2_def round_half_even_def Let_def)

lemma to_double_097: "to_double (97 / 100) = 4368491638549381 / 2 ^ 52"
  by (subst to_double_eval [where e = "- 1"]) (simp_all add: pow2_def round_half_even_def Let_def)

lemma round_097: "round_half_even (4368491638549381 / 2 ^ 52 * 10 ^ 2) = 97"
  by (simp add: round_half_even_def Let_def)

lemma to_double_59_2: "to_double (59 / 2) = 59 / 2"
  by (subst to_double_eval [where e = 4]) (simp_all add: pow2_def round_half_even_def Let_def)

lemma to_double_0295: "to_double (59 / 2 / 100) = 5314247560297185 / 2 ^ 54"
  by (subst to_double_eval [where e = "- 2"]) (simp_all add: pow2_def round_half_even_def Let_def)

lemma round_0295: "round_half_even (5314247560297185 / 2 ^ 54 * 10 ^ 2) = 29"
  by (simp add: round_half_even_def Let_def)

lemma to_double_029: "to_double (29 / 100) = 5224175567749775 / 2 ^ 54"
  by (subst to_double_eval [where e = "- 2"]) (simp_all add: pow2_def round_half_even_def Let_def)

lemma pdf_pages_pooled:
  "map (image_to_data deps) images = map Inr confs \<Longrightarrow>
   map (image_to_string deps) images = map Inr texts \<Longrightarrow>
   pdf_pages deps images all_text all_lines all_confidences =
     Inr (all_text @ map strip texts,
          all_lines @ concat (map text_lines texts),
          all_confidences @ concat (map positive_confidences confs))"
proof (induction images arbitrary: confs texts all_text all_lines all_confidences)
  case Nil
  then show ?case by simp
next
  case (Cons img rest)
  from Cons.prems obtain conf confs' page_text texts'
    where confs: "confs = conf # confs'" and texts: "texts = page_text # texts'"
      and img: "image_to_data deps img = Inr conf" "image_to_string deps img = Inr page_text"
      and rest: "map (image_to_data deps) rest = map Inr confs'" "map (image_to_string deps) rest = map Inr texts'"
    by (cases confs; cases texts) auto
  show ?case
    by (simp add: img confs texts Cons.IH [OF rest] Let_def)
qed

lemma positive_confidences_filter: "positive_confidences = filter (\<lambda>c. 0 < c)"
  by (rule ext) (simp add: positive_confidences_def)

lemma sum_list_bounds:
  "list_all (\<lambda>c. 0 < c \<and> c \<le> 100) cs \<Longrightarrow>
   int (length cs) \<le> sum_list cs \<and> sum_list cs \<le> 100 * int (length cs)"
  by (induction cs) auto

lemma mean_in_range:
  assumes "cs \<noteq> []" and "list_all (\<lambda>c. 0 < c \<and> c \<le> 100) cs"
  shows "int_true_divide (sum_list cs) (int (length cs)) =
           Inr (to_double (of_int (sum_list cs) / of_nat (length cs)))"
proof -
  let ?n = "real (length cs)" and ?s = "real_of_int (sum_list cs)"
  have n: "0 < ?n" using assms(1) by simp
  have "int (length cs) \<le> sum_list cs" and "sum_list cs \<le> 100 * int (length cs)"
    using sum_list_bounds [OF assms(2)] by simp_all
  then have "real_of_int (int (length cs)) \<le> ?s" and "?s \<le> real_of_int (100 * int (length cs))"
    by (simp_all only: of_int_le_iff)
  then have "?n \<le> ?s" and "?s \<le> 100 * ?n"
    by simp_all
  then have "0 \<le> ?s / ?n" and "?s / ?n \<le> 100"
    using n by (simp_all add: divide_le_eq)
  then have "\<bar>?s / ?n\<bar> \<le> 100" by simp
  moreover have "(100::real) < 2 ^ 1024 - 2 ^ 970" by simp
  ultimately have "\<not> 2 ^ 1024 - 2 ^ 970 \<le> \<bar>?s / ?n\<bar>" by linarith
  then show ?thesis
    using assms(1) by (simp add: int_true_divide_def)
qed

lemma py_round_zero: "py_round 0 n = 0"
  by (simp add: py_round_def round_half_even_def to_double_def)

lemma pooled_is_average:
  assumes "list_all (\<lambda>c. c \<le> 100) (concat confs)"
  shows "and_then (average_confidence (concat (map positive_confidences confs)))
           (\<lambda>avg_confidence. Inr (py_round avg_confidence 2)) =
         Inr (spec_pooled_confidence confs)"
proof -
  let ?pooled = "concat (map (filter (\<lambda>c. 0 < c)) confs)"
  have "list_all (\<lambda>c. 0 < c \<and> c \<le> 100) ?pooled"
    using assms by (induction confs) (auto simp add: list_all_iff)
  then have mean: "?pooled \<noteq> [] \<Longrightarrow> int_true_divide (sum_list ?pooled) (int (length ?pooled)) =
           Inr (to_double (of_int (sum_list ?pooled) / of_nat (length ?pooled)))"
    by (intro mean_in_range)
  show ?thesis
  proof (cases "?pooled = []")
    case True
    then show ?thesis
      unfolding positive_confidences_filter spec_pooled_confidence_def average_confidence_def Let_def
      by (simp add: and_then_def py_round_zero)
  next
    case False
    then show ?thesis
      unfolding positive_confidences_filter spec_pooled_confidence_def average_confidence_def Let_def
      by (simp only: mean if_True if_False not_False_eq_True and_then_def sum.case)
  qed
qed

lemma mean_190: "divide_by_100 (to_double (190 / 3)) = 1426139882000657 / 2 ^ 51"
  unfolding divide_by_100_def to_double_190_3 by (rule to_double_0633)

lemma round_190: "py_round (1426139882000657 / 2 ^ 51) 2 = to_double (63 / 100)"
  unfolding py_round_def round_0633 by simp

lemma example_pooled: "spec_pooled_confidence [[90, 90], [10]] = to_double (63 / 100)"
proof -
  have "spec_pooled_confidence [[90, 90], [10]] = py_round (divide_by_100 (to_double (190 / 3))) 2"
    by (simp add: spec_pooled_confidence_def Let_def)
  then show ?thesis by (simp only: mean_190 round_190)
qed

lemma mean_59: "divide_by_100 (to_double (59 / 2)) = 5314247560297185 / 2 ^ 54"
  unfolding divide_by_100_def to_double_59_2 by (rule to_double_0295)

lemma round_59: "py_round (5314247560297185 / 2 ^ 54) 2 = to_double (29 / 100)"
  unfolding py_round_def round_0295 by simp

text \<open>The tie the exact mean would round up: for the confidences 29 and 30 the float
  \<^verbatim>\<open>29.5 / 100.0\<close> lies below 0.295 and the confidence is the float 0.29, which is
  below the float 0.3 of the confidence threshold.\<close>

lemma tie_pooled: "spec_pooled_confidence [[29, 30]] = to_double (29 / 100)"
proof -
  have "spec_pooled_confidence [[29, 30]] = py_round (divide_by_100 (to_double (59 / 2))) 2"
    by (simp add: spec_pooled_confidence_def Let_def)
  then show ?thesis by (simp only: mean_59 round_59)
qed

lemma tie_below_threshold: "to_double (29 / 100) < to_double 0.3"
  by (simp add: to_double_029 to_double_03)

text \<open>
  C5, as amended. For a PDF whose pages the OCR engine reads, with token confidences of
  at most 100, \<^verbatim>\<open>extract_from_pdf\<close> returns, and its confidence is the mean of the
  positive token confidences of all pages pooled together, over 100, rounded to two
  decimals, in float arithmetic (0.0 when there is none); it is not an average of page
  averages. The text is the stripped page texts joined by newlines and the lines are the
  pages' lines, in page order. For the confidences 90, 90 on page 1 and 10 on page 2 the
  confidence is the float 0.63, which is \<open>5674535530486825 / 2 ^ 53\<close>, and not 0.50.
\<close>

theorem pooled_confidence:
  assumes "convert_from_bytes deps pdf_bytes = Inr images"
    and "map (image_to_data deps) images = map Inr confs"
    and "map (image_to_string deps) images = map Inr texts"
    and "list_all (\<lambda>c. c \<le> 100) (concat confs)"
  shows "(\<exists>r. extract_from_pdf deps pdf_bytes = Inr r \<and>
              ocr_confidence r = spec_pooled_confidence confs \<and>
              raw_text r = join_newline (map strip texts) \<and>
              lines r = concat (map text_lines texts))
         \<and> spec_pooled_confidence [[90, 90], [10]] = to_double (63 / 100)
         \<and> to_double (63 / 100) = 5674535530486825 / 2 ^ 53
         \<and> spec_pooled_confidence [[90, 90], [10]] \<noteq> 50 / 100"
proof -
  have "extract_from_pdf deps pdf_bytes =
          Inr \<lparr>raw_text = join_newline (map strip texts), lines = concat (map text_lines texts),
               ocr_confidence = spec_pooled_confidence confs\<rparr>"
    using assms(1) pdf_pages_pooled [OF assms(2,3), of "[]" "[]" "[]"] pooled_is_average [OF assms(4)]
    by (cases "average_confidence (concat (map positive_confidences confs))")
       (simp_all add: extract_from_pdf_def and_then_def)
  then show ?thesis
    by (simp add: example_pooled to_double_063)
qed

theorem pooled_confidence_witness:
  "extract_from_pdf two_page_run (content scanned_pdf) =
     Inr \<lparr>raw_text = ''Hb: 8.5'' @ [CHR 0x0A] @ ''g/dL'', lines = [''Hb: 8.5'', ''g/dL''],
          ocr_confidence = to_double (63 / 100)\<rparr>"
proof -
  let ?pages = "[([90, 90], ''Hb: 8.5''), ([10], ''g/dL'')] :: page list"
  have "convert_from_bytes two_page_run (content scanned_pdf) = Inr ?pages"
    and "map (image_to_data two_page_run) ?pages = map Inr [[90, 90], [10]]"
    and "map (image_to_string two_page_run) ?pages = map Inr [''Hb: 8.5'', ''g/dL'']"
    and "list_all (\<lambda>c. c \<le> 100) (concat [[90, 90], [10 :: int]])"
    by (simp_all add: two_page_run_def example_deps_def)
  from pooled_confidence [OF this]
  obtain r where "extract_from_pdf two_page_run (content scanned_pdf) = Inr r"
    and "ocr_confidence r = spec_pooled_confidence [[90, 90], [10]]"
    and "raw_text r = join_newline (map strip [''Hb: 8.5'', ''g/dL''])"
    and "lines r = concat (map text_lines [''Hb: 8.5'', ''g/dL''])"
    and "spec_pooled_confidence [[90, 90], [10]] = to_double (63 / 100)"
    by blast
  then show ?thesis
    by (cases r) (simp add: strip_def isspace_def text_lines_def)
qed

lemma two_page_value:
  "map_sum id ocr_confidence (extract_from_pdf two_page_run (content scanned_pdf)) =
     Inr (to_double (63 / 100))"
proof -
  have "and_then (average_confidence [90, 90, 10]) (\<lambda>avg_confidence. Inr (py_round avg_confidence 2)) =
      Inr (spec_pooled_confidence [[90, 90], [10]])"
    using pooled_is_average [of "[[90, 90], [10]]"] by (simp add: positive_confidences_def)
  then show ?thesis
    by (cases "average_confidence [90, 90, 10]")
       (simp_all add: two_page_run_def example_deps_def extract_from_pdf_def and_then_def Let_def
          positive_confidences_def example_pooled)
qed

text \<open>The confidence of the two-page example is the float 0.63, neither the float
  0.633 nor the number 0.633 of the claim.\<close>

theorem two_page_confidence_rounded:
  "map_sum id ocr_confidence (extract_from_pdf two_page_run (content scanned_pdf)) = Inr (to_double (63 / 100))
   \<and> to_double (63 / 100) \<noteq> to_double (633 / 1000)
   \<and> to_double (63 / 100) \<noteq> 633 / 1000"
  by (simp add: two_page_value to_double_063 to_double_0633_literal)

section \<open>A failure of the OCR stage\<close>

lemma processing_error_Inl [simp]:
  "processing_error (t, Inl e) = (t, Returns (ErrorResponse ''unprocessed'' (''Processing error: '' @ str_exc e)))"
  by (simp add: processing_error_def)

lemma processing_error_Inr [simp]: "processing_error (t, Inr r) = (t, Returns r)"
  by (simp add: processing_error_def)

text \<open>
  C4, as amended. When the OCR of an uploaded image or PDF raises an exception \<open>e\<close>,
  \<^verbatim>\<open>process_image_report\<close> does not raise: its handler returns, with status 200, the
  \<^verbatim>\<open>ErrorResponse\<close> with status \<^verbatim>\<open>unprocessed\<close> and the reason
  \<^verbatim>\<open>Processing error: \<close> followed by \<^verbatim>\<open>str(e)\<close>. No service method has been
  entered and nothing has been posted to the oracle.
\<close>

theorem ocr_failure_unprocessed:
  assumes "content_type file = Some ct"
    and "(startswith ct ''image/'' \<and> extract_from_image deps (content file) = Inl e) \<or>
         (\<not> startswith ct ''image/'' \<and> ct = ''application/pdf'' \<and> extract_from_pdf deps (content file) = Inl e)"
  shows "process_image_report deps file =
           ([], Returns (ErrorResponse ''unprocessed'' (''Processing error: '' @ str_exc e)))"
  using assms by (auto simp add: process_image_report_def)

theorem ocr_failure_unprocessed_witness:
  "process_image_report unreadable_run scanned_pdf =
     ([], Returns (ErrorResponse ''unprocessed'' ''Processing error: PDF OCR failed: Unable to get page count.''))"
proof -
  have "extract_from_pdf unreadable_run (content scanned_pdf) = Inl (Exception ''PDF OCR failed: Unable to get page count.'')"
    by (simp add: unreadable_run_def example_deps_def extract_from_pdf_def and_then_def)
  then show ?thesis
    using ocr_failure_unprocessed [of scanned_pdf "''application/pdf''" unreadable_run "Exception ''PDF OCR failed: Unable to get page count.''"]
    by (simp add: scanned_pdf_def startswith_def)
qed

text \<open>An image the OCR engine cannot open: the endpoint returns an
  \<^verbatim>\<open>unprocessed\<close> body, where the claim has it raise a server error.\<close>

theorem unreadable_image_unprocessed:
  "process_image_report unreadable_run scanned_image =
     ([], Returns (ErrorResponse ''unprocessed'' ''Processing error: OCR failed: cannot identify image file''))"
  by (simp add: process_image_report_def scanned_image_def startswith_def unreadable_run_def
      example_deps_def extract_from_image_def and_then_def)

section \<open>The pipeline after validation\<close>

lemma fst_except_Exception [simp]: "fst (except_Exception m h) = fst m"
  by (cases m; cases "snd m") (auto simp add: except_Exception_def)

lemma normalize_trace [simp]:
  "fst (normalize_tests deps text) = [Normalize text, Post (NormalizationPrompt text)]"
proof -
  obtain r where "generate_json deps (NormalizationPrompt text) = ([Post (NormalizationPrompt text)], r)"
    by (simp add: generate_json_def)
  then show ?thesis
    by (cases r) (simp_all add: normalize_tests_def Let_def)
qed

lemma validate_trace [simp]:
  "fst (validate_extraction deps text tests) =
     Validate text tests # (if truthy tests then [Post (ValidationPrompt text tests)] else [])"
  by (simp add: validate_extraction_split validate_try_cases) (simp add: validate_extraction_try_def)

lemma summary_trace [simp]:
  "fst (generate_summary deps tests) =
     Summarize tests # (if truthy tests then [Post (SummaryPrompt tests)] else [])"
proof -
  obtain r where "generate_json deps (SummaryPrompt tests) = ([Post (SummaryPrompt tests)], r)"
    by (simp add: generate_json_def)
  then show ?thesis
    by (cases r) (simp_all add: generate_summary_def Let_def)
qed

lemma traced_then_snd:
  "snd m = Inr x \<Longrightarrow> traced_then m f = (fst m @ fst (f x), snd (f x))"
  by (cases m) simp

lemma traced_then_snd_Inl:
  "snd m = Inl e \<Longrightarrow> traced_then m f = (fst m, Inl e)"
  by (cases m) simp

lemma run_stages_rejected:
  assumes "snd (normalize_tests deps text) = Inr normalized_result"
    and "map_of normalized_result ''tests'' = Some tests"
    and "snd (validate_extraction deps text tests) = Inr validation_result"
    and "map_of validation_result ''status'' = Some (JStr ''unprocessed'')"
    and "map_of validation_result ''reason'' = Some (JStr R)"
  shows "run_stages deps text =
           ([Normalize text, Post (NormalizationPrompt text), Validate text tests] @
            (if truthy tests then [Post (ValidationPrompt text tests)] else []),
            Inr (ErrorResponse ''unprocessed'' R))"
  using assms
  by (simp add: run_stages_def traced_then_snd dict_item_def and_then_def ErrorResponse_init_def)

lemma normalize_hemoglobin:
  assumes "snd (generate_json deps (NormalizationPrompt text)) = Inr [(''tests'', JList [hemoglobin])]"
  shows "snd (normalize_tests deps text) =
           Inr [(''tests'', JList [hemoglobin]), (''normalization_confidence'', JFloat 0.8)]"
proof -
  have gen: "generate_json deps (NormalizationPrompt text) =
      ([Post (NormalizationPrompt text)], Inr [(''tests'', JList [hemoglobin])])"
    using assms by (subst generate_json_pair) simp
  have "clean_tests [hemoglobin] [] = Inr [hemoglobin]"
    using clean_tests_records [of "[hemoglobin]" "[]"] hemoglobin_shaped hemoglobin_admitted by simp
  then show ?thesis
    by (simp add: normalize_tests_def gen has_key_def dict_item_def and_then_def Let_def)
qed

lemma rejected_json_n:
  "snd (generate_json rejected_run (NormalizationPrompt t)) = Inr [(''tests'', JList [hemoglobin])]"
  by (simp add: rejected_run_def eval_defs)

lemma rejected_json_v:
  "snd (generate_json rejected_run (ValidationPrompt t ts)) =
     Inr [(''status'', JStr ''unprocessed''), (''reason'', JStr ''value not found in text''),
          (''confidence'', JFloat 0.2)]"
  by (simp add: rejected_run_def eval_defs)

lemma rejected_validation:
  "snd (validate_extraction rejected_run t (JList [hemoglobin])) =
     Inr [(''status'', JStr ''unprocessed''), (''reason'', JStr ''value not found in text''),
          (''confidence'', JFloat 0.2)]"
  by (simp add: validate_extraction_split validate_try_cases rejected_json_v dict_get_def dict_get_default_def)

lemma average_97: "average_confidence [97, 97] = Inr (to_double (97 / 100))"
proof -
  have "int_true_divide 194 2 = Inr 97"
    by (simp add: int_true_divide_def to_double_97)
  then show ?thesis
    by (simp add: average_confidence_def and_then_def divide_by_100_def)
qed

lemma round_confidence_097: "py_round (to_double (97 / 100)) 2 = to_double (97 / 100)"
proof -
  have "round_half_even (to_double (97 / 100) * 10 ^ 2) = 97"
    unfolding to_double_097 by (rule round_097)
  then show ?thesis
    unfolding py_round_def by simp
qed

lemma rejected_ocr:
  "extract_from_image rejected_run (content scanned_image) =
     Inr \<lparr>raw_text = ''Hb: 8.5 g/dL'', lines = [''Hb: 8.5 g/dL''],
          ocr_confidence = to_double (97 / 100)\<rparr>"
  by (simp add: rejected_run_def example_deps_def extract_from_image_def and_then_def Let_def
      positive_confidences_def average_97 round_confidence_097 strip_def isspace_def text_lines_def)

lemma confidence_097_passes: "\<not> to_double (97 / 100) < to_double 0.3"
  by (simp add: to_double_097 to_double_03)

text \<open>A rejection whose reason is not a string (the oracle gave none): when the
  response model refuses it, the handler's reason replaces it, and the summary is not
  reached either.\<close>

lemma rejection_without_reason:
  assumes "snd (normalize_tests deps text) = Inr normalized_result"
    and "map_of normalized_result ''tests'' = Some tests"
    and "snd (validate_extraction deps text tests) = Inr validation_result"
    and "map_of validation_result ''status'' = Some (JStr ''unprocessed'')"
    and "map_of validation_result ''reason'' = Some JNull"
    and "str_field_other deps JNull = Inl e"
  shows "process_text_report deps text =
           ([Normalize text, Post (NormalizationPrompt text), Validate text tests] @
            (if truthy tests then [Post (ValidationPrompt text tests)] else []),
            Returns (ErrorResponse ''unprocessed'' (''Processing error: '' @ str_exc e)))"
  using assms
  by (simp add: process_text_report_def run_stages_def traced_then_snd dict_item_def and_then_def
      ErrorResponse_init_def)

text \<open>
  C2. In a run of the text pipeline where extraction returns and the validator returns a
  rejection (status \<^verbatim>\<open>unprocessed\<close>) with the reason \<open>R\<close>, a string, the endpoint
  returns the \<^verbatim>\<open>ErrorResponse\<close> with status \<^verbatim>\<open>unprocessed\<close> and exactly the reason
  \<open>R\<close>. The trace of the run ends with the validator: \<^verbatim>\<open>generate_summary\<close> is not
  entered and no summary prompt is posted. A run of the document pipeline whose OCR
  gives that text, with a confidence of 0.3 or more, ends the same way.
\<close>

theorem rejection_propagates:
  assumes "snd (normalize_tests deps text) = Inr normalized_result"
    and "map_of normalized_result ''tests'' = Some tests"
    and "snd (validate_extraction deps text tests) = Inr validation_result"
    and "map_of validation_result ''status'' = Some (JStr ''unprocessed'')"
    and "map_of validation_result ''reason'' = Some (JStr R)"
  shows "process_text_report deps text =
           ([Normalize text, Post (NormalizationPrompt text), Validate text tests] @
            (if truthy tests then [Post (ValidationPrompt text tests)] else []),
            Returns (ErrorResponse ''unprocessed'' R))
       \<and> (\<forall>ts. Summarize ts \<notin> set (fst (process_text_report deps text)) \<and>
                Post (SummaryPrompt ts) \<notin> set (fst (process_text_report deps text)))
       \<and> (\<forall>file ct ocr.
             content_type file = Some ct \<and>
             (startswith ct ''image/'' \<and> extract_from_image deps (content file) = Inr ocr \<or>
              \<not> startswith ct ''image/'' \<and> ct = ''application/pdf'' \<and>
                extract_from_pdf deps (content file) = Inr ocr) \<and>
             \<not> ocr_confidence ocr < to_double 0.3 \<and> raw_text ocr = text \<longrightarrow>
             process_image_report deps file = process_text_report deps text)"
proof (intro conjI)
  note run = run_stages_rejected [OF assms]
  show text_report: "process_text_report deps text =
           ([Normalize text, Post (NormalizationPrompt text), Validate text tests] @
            (if truthy tests then [Post (ValidationPrompt text tests)] else []),
            Returns (ErrorResponse ''unprocessed'' R))"
    by (simp add: process_text_report_def run)
  show "\<forall>ts. Summarize ts \<notin> set (fst (process_text_report deps text)) \<and>
                Post (SummaryPrompt ts) \<notin> set (fst (process_text_report deps text))"
    by (simp add: text_report)
  show "\<forall>file ct ocr.
             content_type file = Some ct \<and>
             (startswith ct ''image/'' \<and> extract_from_image deps (content file) = Inr ocr \<or>
              \<not> startswith ct ''image/'' \<and> ct = ''application/pdf'' \<and>
                extract_from_pdf deps (content file) = Inr ocr) \<and>
             \<not> ocr_confidence ocr < to_double 0.3 \<and> raw_text ocr = text \<longrightarrow>
             process_image_report deps file = process_text_report deps text"
    by (auto simp add: process_image_report_def process_text_report_def after_ocr_def)
qed


theorem rejection_propagates_witness:
  "process_text_report rejected_run ''Hb: 8.5 g/dL'' =
     ([Normalize ''Hb: 8.5 g/dL'', Post (NormalizationPrompt ''Hb: 8.5 g/dL''),
       Validate ''Hb: 8.5 g/dL'' (JList [hemoglobin]),
       Post (ValidationPrompt ''Hb: 8.5 g/dL'' (JList [hemoglobin]))],
      Returns (ErrorResponse ''unprocessed'' ''value not found in text''))
   \<and> process_image_report rejected_run scanned_image = process_text_report rejected_run ''Hb: 8.5 g/dL''"
proof -
  let ?text = "''Hb: 8.5 g/dL''"
  let ?ocr = "\<lparr>raw_text = ''Hb: 8.5 g/dL'', lines = [''Hb: 8.5 g/dL''], ocr_confidence = to_double (97 / 100)\<rparr>"
  have "snd (normalize_tests rejected_run ?text) =
          Inr [(''tests'', JList [hemoglobin]), (''normalization_confidence'', JFloat 0.8)]"
    by (rule normalize_hemoglobin) (rule rejected_json_n)
  moreover have "map_of [(''tests'', JList [hemoglobin]), (''normalization_confidence'', JFloat 0.8)] ''tests'' =
      Some (JList [hemoglobin])"
    by simp
  moreover note rejected_validation [of ?text]
  moreover have
    "map_of [(''status'', JStr ''unprocessed''), (''reason'', JStr ''value not found in text''),
             (''confidence'', JFloat 0.2)] ''status'' = Some (JStr ''unprocessed'')"
    "map_of [(''status'', JStr ''unprocessed''), (''reason'', JStr ''value not found in text''),
             (''confidence'', JFloat 0.2)] ''reason'' = Some (JStr ''value not found in text'')"
    by simp_all
  ultimately have all: "process_text_report rejected_run ?text =
           ([Normalize ?text, Post (NormalizationPrompt ?text), Validate ?text (JList [hemoglobin])] @
            (if truthy (JList [hemoglobin]) then [Post (ValidationPrompt ?text (JList [hemoglobin]))] else []),
            Returns (ErrorResponse ''unprocessed'' ''value not found in text''))
       \<and> (\<forall>ts. Summarize ts \<notin> set (fst (process_text_report rejected_run ?text)) \<and>
                Post (SummaryPrompt ts) \<notin> set (fst (process_text_report rejected_run ?text)))
       \<and> (\<forall>file ct ocr.
             content_type file = Some ct \<and>
             (startswith ct ''image/'' \<and> extract_from_image rejected_run (content file) = Inr ocr \<or>
              \<not> startswith ct ''image/'' \<and> ct = ''application/pdf'' \<and>
                extract_from_pdf rejected_run (content file) = Inr ocr) \<and>
             \<not> ocr_confidence ocr < to_double 0.3 \<and> raw_text ocr = ?text \<longrightarrow>
             process_image_report rejected_run file = process_text_report rejected_run ?text)"
    by (rule rejection_propagates)
  have "content_type scanned_image = Some ''image/png'' \<and>
        (startswith ''image/png'' ''image/'' \<and> extract_from_image rejected_run (content scanned_image) = Inr ?ocr \<or>
         \<not> startswith ''image/png'' ''image/'' \<and> ''image/png'' = ''application/pdf'' \<and>
           extract_from_pdf rejected_run (content scanned_image) = Inr ?ocr) \<and>
        \<not> ocr_confidence ?ocr < to_double 0.3 \<and> raw_text ?ocr = ?text"
    by (simp add: rejected_ocr confidence_097_passes) (simp add: scanned_image_def startswith_def)
  with all have "process_image_report rejected_run scanned_image = process_text_report rejected_run ?text"
    by blast
  with all show ?thesis by simp
qed

lemma validate_ok_tests:
  assumes "truthy tests"
    and "snd (validate_extraction deps text tests) = Inr validation_result"
    and "map_of validation_result ''status'' = Some (JStr ''ok'')"
  shows "map_of validation_result ''tests'' = Some tests"
  using assms
  by (auto simp add: validate_extraction_split validate_try_cases validation_error_def
      split: sum.splits option.splits if_splits)

lemma summary_keys:
  assumes "truthy tests" and "snd (generate_summary deps tests) = Inr summary_result"
  shows "has_key summary_result ''summary'' \<and> has_key summary_result ''explanations''"
proof -
  obtain r where gen: "generate_json deps (SummaryPrompt tests) = ([Post (SummaryPrompt tests)], r)"
    by (simp add: generate_json_def)
  show ?thesis
    using assms
    by (cases r)
       (auto simp add: generate_summary_def gen has_key_def map_of_dict_set Let_def and_then_def
          split: if_splits sum.splits)
qed

lemma run_stages_accepted:
  assumes "snd (normalize_tests deps text) = Inr normalized_result"
    and "map_of normalized_result ''tests'' = Some (JList ts)" and "ts \<noteq> []"
    and "snd (validate_extraction deps text (JList ts)) = Inr validation_result"
    and "map_of validation_result ''status'' = Some (JStr ''ok'')"
  shows "run_stages deps text =
           ([Normalize text, Post (NormalizationPrompt text),
             Validate text (JList ts), Post (ValidationPrompt text (JList ts)),
             Summarize (JList ts), Post (SummaryPrompt (JList ts))],
            case snd (generate_summary deps (JList ts)) of
              Inl e \<Rightarrow> Inl e
            | Inr summary_result \<Rightarrow>
                and_then (dict_item summary_result ''summary'') (\<lambda>summary.
                and_then (dict_item summary_result ''explanations'') (\<lambda>explanations.
                  FinalResponse_init deps (JList ts) summary explanations ''ok'')))"
proof -
  have tests: "map_of validation_result ''tests'' = Some (JList ts)"
    using assms(3-5) by (intro validate_ok_tests [of "JList ts" deps "text"]) simp_all
  show ?thesis
  proof (cases "snd (generate_summary deps (JList ts))")
    case (Inl e)
    then show ?thesis
      using assms tests
      by (simp add: run_stages_def traced_then_snd traced_then_snd_Inl dict_item_def dict_get_default_def Let_def)
  next
    case (Inr summary_result)
    then show ?thesis
      using assms tests
      by (cases "dict_item summary_result ''summary''"; cases "dict_item summary_result ''explanations''")
         (simp_all add: run_stages_def traced_then_snd dict_item_def dict_get_default_def and_then_def Let_def)
  qed
qed

lemma accepted_json_v:
  "snd (generate_json accepted_run (ValidationPrompt t ts)) =
     Inr [(''status'', JStr ''ok''), (''confidence'', JFloat 0.9)]"
  by (simp add: accepted_run_def eval_defs)

lemma accepted_json_s:
  "generate_json accepted_run (SummaryPrompt ts) =
     ([Post (SummaryPrompt ts)],
      Inr [(''summary'', JStr ''Your hemoglobin is low.''), (''explanations'', JList [])])"
  by (simp add: accepted_run_def eval_defs)

lemma accepted_validation:
  "snd (validate_extraction accepted_run t (JList [hemoglobin])) =
     Inr [(''status'', JStr ''ok''), (''reason'', JNull), (''confidence'', JFloat 0.9),
          (''tests'', JList [hemoglobin])]"
  by (simp add: validate_extraction_split validate_try_cases accepted_json_v dict_get_def dict_get_default_def)

lemma accepted_summary:
  "snd (generate_summary accepted_run (JList [hemoglobin])) =
     Inr [(''summary'', JStr ''Your hemoglobin is low.''), (''explanations'', JList []),
          (''status'', JStr ''ok'')]"
  by (simp add: generate_summary_def accepted_json_s has_key_def dict_item_def and_then_def)

text \<open>
  C6. In a run of the text pipeline where extraction returns a non-empty list of tests
  and the validator accepts it (status \<^verbatim>\<open>ok\<close>), the validator's result carries that
  list as its tests, \<^verbatim>\<open>generate_summary\<close> is entered with exactly that list, and a
  \<^verbatim>\<open>FinalResponse\<close> the endpoint returns was built from exactly that list: same
  records, same order. When the summary succeeds and the response model accepts its
  arguments, that \<^verbatim>\<open>FinalResponse\<close> is what the endpoint returns.
\<close>

theorem accepted_tests_unchanged:
  assumes "snd (normalize_tests deps text) = Inr normalized_result"
    and "map_of normalized_result ''tests'' = Some (JList ts)" and "ts \<noteq> []"
    and "snd (validate_extraction deps text (JList ts)) = Inr validation_result"
    and "map_of validation_result ''status'' = Some (JStr ''ok'')"
  shows "map_of validation_result ''tests'' = Some (JList ts)
       \<and> fst (process_text_report deps text) =
           [Normalize text, Post (NormalizationPrompt text),
            Validate text (JList ts), Post (ValidationPrompt text (JList ts)),
            Summarize (JList ts), Post (SummaryPrompt (JList ts))]
       \<and> (\<forall>tests summary explanations status.
             snd (process_text_report deps text) = Returns (FinalResponse tests summary explanations status) \<longrightarrow>
             tests = JList ts)
       \<and> (\<forall>summary_result.
             snd (generate_summary deps (JList ts)) = Inr summary_result \<and>
             FinalResponse_error deps (JList ts) (dict_get summary_result ''summary'')
               (dict_get summary_result ''explanations'') = None \<longrightarrow>
             snd (process_text_report deps text) =
               Returns (FinalResponse (JList ts) (dict_get summary_result ''summary'')
                          (dict_get summary_result ''explanations'') ''ok''))"
proof (intro conjI allI impI)
  note run = run_stages_accepted [OF assms]
  show "map_of validation_result ''tests'' = Some (JList ts)"
    using assms(3-5) by (intro validate_ok_tests [of "JList ts" deps "text"]) simp_all
  show "fst (process_text_report deps text) =
           [Normalize text, Post (NormalizationPrompt text),
            Validate text (JList ts), Post (ValidationPrompt text (JList ts)),
            Summarize (JList ts), Post (SummaryPrompt (JList ts))]"
    by (simp add: process_text_report_def run processing_error_def split: sum.splits)
  {
    fix tests summary explanations status
    assume "snd (process_text_report deps text) = Returns (FinalResponse tests summary explanations status)"
    then show "tests = JList ts"
      by (auto simp add: process_text_report_def run processing_error_def and_then_def FinalResponse_init_def
          split: sum.splits option.splits)
  }
  {
    fix summary_result
    assume h: "snd (generate_summary deps (JList ts)) = Inr summary_result \<and>
             FinalResponse_error deps (JList ts) (dict_get summary_result ''summary'')
               (dict_get summary_result ''explanations'') = None"
    then have "has_key summary_result ''summary'' \<and> has_key summary_result ''explanations''"
      using assms(3) by (intro summary_keys [of "JList ts" deps]) simp_all
    then obtain summary explanations where
      "map_of summary_result ''summary'' = Some summary" "map_of summary_result ''explanations'' = Some explanations"
      by (auto simp add: has_key_def)
    then show "snd (process_text_report deps text) =
               Returns (FinalResponse (JList ts) (dict_get summary_result ''summary'')
                          (dict_get summary_result ''explanations'') ''ok'')"
      using h
      by (simp add: process_text_report_def run processing_error_def and_then_def FinalResponse_init_def
          dict_item_def dict_get_def dict_get_default_def)
  }
qed

theorem accepted_tests_unchanged_witness:
  "process_text_report accepted_run ''Hb: 8.5 g/dL'' =
     ([Normalize ''Hb: 8.5 g/dL'', Post (NormalizationPrompt ''Hb: 8.5 g/dL''),
       Validate ''Hb: 8.5 g/dL'' (JList [hemoglobin]),
       Post (ValidationPrompt ''Hb: 8.5 g/dL'' (JList [hemoglobin])),
       Summarize (JList [hemoglobin]), Post (SummaryPrompt (JList [hemoglobin]))],
      Returns (FinalResponse (JList [hemoglobin]) (JStr ''Your hemoglobin is low.'') (JList []) ''ok''))"
proof -
  let ?text = "''Hb: 8.5 g/dL''"
  let ?summary = "[(''summary'', JStr ''Your hemoglobin is low.''), (''explanations'', JList []),
          (''status'', JStr ''ok'')]"
  have "snd (normalize_tests accepted_run ?text) =
          Inr [(''tests'', JList [hemoglobin]), (''normalization_confidence'', JFloat 0.8)]"
    by (rule normalize_hemoglobin) (rule accepted_json_n)
  moreover have "map_of [(''tests'', JList [hemoglobin]), (''normalization_confidence'', JFloat 0.8)] ''tests'' =
      Some (JList [hemoglobin])"
    by simp
  moreover have "[hemoglobin] \<noteq> []" by simp
  moreover note accepted_validation [of ?text]
  moreover have
    "map_of [(''status'', JStr ''ok''), (''reason'', JNull), (''confidence'', JFloat 0.9),
          (''tests'', JList [hemoglobin])] ''status'' = Some (JStr ''ok'')"
    by simp
  ultimately have all:
    "map_of [(''status'', JStr ''ok''), (''reason'', JNull), (''confidence'', JFloat 0.9),
          (''tests'', JList [hemoglobin])] ''tests'' = Some (JList [hemoglobin])
       \<and> fst (process_text_report accepted_run ?text) =
           [Normalize ?text, Post (NormalizationPrompt ?text),
            Validate ?text (JList [hemoglobin]), Post (ValidationPrompt ?text (JList [hemoglobin])),
            Summarize (JList [hemoglobin]), Post (SummaryPrompt (JList [hemoglobin]))]
       \<and> (\<forall>tests summary explanations status.
             snd (process_text_report accepted_run ?text) = Returns (FinalResponse tests summary explanations status) \<longrightarrow>
             tests = JList [hemoglobin])
       \<and> (\<forall>summary_result.
             snd (generate_summary accepted_run (JList [hemoglobin])) = Inr summary_result \<and>
             FinalResponse_error accepted_run (JList [hemoglobin]) (dict_get summary_result ''summary'')
               (dict_get summary_result ''explanations'') = None \<longrightarrow>
             snd (process_text_report accepted_run ?text) =
               Returns (FinalResponse (JList [hemoglobin]) (dict_get summary_result ''summary'')
                          (dict_get summary_result ''explanations'') ''ok''))"
    by (rule accepted_tests_unchanged)
  have "snd (generate_summary accepted_run (JList [hemoglobin])) = Inr ?summary \<and>
        FinalResponse_error accepted_run (JList [hemoglobin]) (dict_get ?summary ''summary'')
          (dict_get ?summary ''explanations'') = None"
    by (simp add: accepted_summary) (simp add: accepted_run_def example_deps_def)
  with all have "snd (process_text_report accepted_run ?text) =
               Returns (FinalResponse (JList [hemoglobin]) (dict_get ?summary ''summary'')
                          (dict_get ?summary ''explanations'') ''ok'')"
    by blast
  with all show ?thesis
    by (simp add: prod_eq_iff dict_get_def dict_get_default_def)
qed

end
